theory Spec2Isabelle
  imports Main "HOL-Library.Char_ord" "HOL-Library.List_Lexorder"
begin

section \<open>Python values, dictionaries and errors\<close>

text \<open>
  The values that travel over the transport are decoded JSON; the console scope may also
  hold arbitrary Python objects, which the model keeps opaque (\<open>VObj\<close>, a reference).
  A float literal is kept as mantissa and decimal exponent (\<open>0.1\<close> is \<open>VFloat 1 (-1)\<close>):
  the viewer only passes floats along, it never computes with them.
  Strings are byte strings; the whitespace and letter tests below cover ASCII.
\<close>

datatype pyval =
    VNone
  | VBool bool
  | VInt int
  | VFloat int int
  | VStr string
  | VList "pyval list"
  | VDict "(string \<times> pyval) list"
  | VObj nat

type_synonym pydict = "(string \<times> pyval) list"

datatype error =
    ValueError string
  | AttributeError string
  | TypeError string
  | UnboundLocalError string
  | ImageError string

text \<open>\<open>str(e)\<close> of an exception: its message.\<close>

fun error_message :: "error \<Rightarrow> string" where
  "error_message (ValueError m) = m"
| "error_message (AttributeError m) = m"
| "error_message (TypeError m) = m"
| "error_message (UnboundLocalError m) = m"
| "error_message (ImageError m) = m"

text \<open>Python truth value (\<open>if x:\<close>, \<open>not x\<close>, \<open>x or y\<close>); an opaque object is true.\<close>

fun truthy :: "pyval \<Rightarrow> bool" where
  "truthy VNone = False"
| "truthy (VBool b) = b"
| "truthy (VInt i) = (i \<noteq> 0)"
| "truthy (VFloat m e) = (m \<noteq> 0)"
| "truthy (VStr s) = (s \<noteq> [])"
| "truthy (VList xs) = (xs \<noteq> [])"
| "truthy (VDict d) = (d \<noteq> [])"
| "truthy (VObj r) = True"

text \<open>\<open>d[k] = v\<close> on an insertion-ordered dict: an existing key keeps its place.\<close>

fun dict_set :: "'k \<Rightarrow> 'v \<Rightarrow> ('k \<times> 'v) list \<Rightarrow> ('k \<times> 'v) list" where
  "dict_set k v [] = [(k, v)]"
| "dict_set k v (p # ps) = (if fst p = k then (k, v) # ps else p # dict_set k v ps)"

text \<open>\<open>d.get(k, default)\<close> on a dict with string keys.\<close>

definition get_or :: "(string \<times> 'v) list \<Rightarrow> string \<Rightarrow> 'v \<Rightarrow> 'v" where
  "get_or d k dflt = (case map_of d k of Some v \<Rightarrow> v | None \<Rightarrow> dflt)"

text \<open>\<open>data.get(k, default)\<close> on a message: anything but a dict has no \<open>get\<close>.\<close>

fun msg_get :: "pyval \<Rightarrow> string \<Rightarrow> pyval \<Rightarrow> error + pyval" where
  "msg_get (VDict d) k dflt = Inr (get_or d k dflt)"
| "msg_get v k dflt = Inl (AttributeError ''get'')"

text \<open>
  \<open>registry.get(key)\<close> where the registry's keys are names: a list or a dict as key is
  unhashable (TypeError); any other value that is not a string is simply not a key.
\<close>

fun registry_get :: "(string \<times> 'v) list \<Rightarrow> pyval \<Rightarrow> error + 'v option" where
  "registry_get d (VStr k) = Inr (map_of d k)"
| "registry_get d (VList xs) = Inl (TypeError ''unhashable type: list'')"
| "registry_get d (VDict kv) = Inl (TypeError ''unhashable type: dict'')"
| "registry_get d v = Inr None"

text \<open>The fields of a message that is known to be a dict.\<close>

definition msg_fields :: "pyval \<Rightarrow> pydict" where
  "msg_fields data = (case data of VDict d \<Rightarrow> d | _ \<Rightarrow> [])"

section \<open>Scene objects, controls and outbound calls\<close>

text \<open>
  The classes of scene objects and controls are not part of \<open>viewer.py\<close>; the viewer only
  uses their name, \<open>hasattr\<close> and \<open>setattr\<close>. An instance is its class name, its name and
  the attributes \<open>hasattr\<close> sees (methods and properties included). Which assignments a
  class refuses is a parameter of the model (\<open>refuses\<close> below).
\<close>

record entity =
  ent_class :: string
  ent_name :: string
  ent_attrs :: pydict

definition hasattr :: "entity \<Rightarrow> string \<Rightarrow> bool" where
  "hasattr e k = (map_of (ent_attrs e) k \<noteq> None)"

text \<open>A console segment \<open>{'text': t, 'color': c}\<close>.\<close>

type_synonym segment = "string \<times> string option"

text \<open>
  Everything the viewer does to the outside, in program order: the calls on the socket
  manager, on the event dispatcher and on a control, writes to the process's standard
  output, saving an image file and restarting the process.
\<close>

datatype effect =
    Emit string pyval
  | EmitWithFallback string pyval
  | EmitAddGeometry entity
  | EmitAddControl entity
  | EmitConsoleOutput "segment list"
  | Trigger string "pyval list"
  | ControlEvent string pyval
  | Print string
  | StdoutWrite string
  | StderrWrite string
  | SaveImage string string pyval
  | Restart

section \<open>The viewer session\<close>

text \<open>
  The fields of \<open>BaseViewer\<close> and \<open>ViewerClient\<close>. The console scope is a pair of
  references to dicts of the application; \<open>store\<close> holds those dicts, so that globals
  and locals may be one and the same dict. \<open>request_threads\<close> is the flag of each
  \<open>threading.Event\<close>; both request dicts are created with exactly the keys of
  \<open>request_events\<close> and every access is behind the membership test or uses one of these
  keys literally, so they are modelled by their lookup functions.
\<close>

record viewer =
  viewer_id :: string
  objects :: "(string \<times> entity) list"
  ui_controls :: "(string \<times> entity) list"
  interactive_console_enabled :: bool
  console_disabled_warning_emitted :: bool
  print_buffer :: string
  capture_prints_enabled :: bool
  console_scope_globals :: "nat option"
  console_scope_locals :: "nat option"
  request_threads :: "string \<Rightarrow> bool"
  request_data :: "string \<Rightarrow> pyval"
  store :: "nat \<Rightarrow> pydict"
  effects :: "effect list"

definition request_events :: "string list" where
  "request_events = [''camera_info'', ''selected_object'', ''screenshot'']"

definition DEFAULT_CAMERA_STATE :: pyval where
  "DEFAULT_CAMERA_STATE = VDict
     [(''projection_mode'', VStr ''perspective''),
      (''fov'', VInt 50),
      (''near'', VFloat 1 (- 1)),
      (''far'', VInt 1000)]"

text \<open>
  The outcome of running console code: the traceback text of the exception it raised or
  the value it returned, the session it left behind (the code may touch anything it can
  reach), and what it wrote to standard output and standard error.
\<close>

datatype run = Run "string + pyval" viewer string string

datatype compiled = Code | SyntaxError string | CompileError string

text \<open>
  What \<open>viewer.py\<close> calls but does not define: the helpers of \<open>utils.parse\<close>,
  \<open>utils.print_capture\<close> and \<open>materials.utils\<close>, the Python interpreter
  (\<open>compile\<close>, \<open>eval\<close>, \<open>exec\<close>, \<open>repr\<close>, \<open>str\<close>, \<open>dir\<close>, the module's
  \<open>__builtins__\<close>, the dict of \<open>__main__\<close>) and the image decoder
  (\<open>base64.b64decode\<close> followed by \<open>Image.open\<close>). They are parameters of the model.
  \<open>create_material_from_dict\<close> and \<open>repr\<close> return \<open>Inl\<close> with the message when they
  raise. \<open>refuses obj key v\<close> is the exception that \<open>setattr(obj, key, v)\<close> raises, if
  any: the classes of the objects decide it (a property without a setter, a setter that
  rejects the value).
\<close>

record env =
  as_array :: "pyval \<Rightarrow> pyval"
  as_list :: "pyval \<Rightarrow> pyval"
  split_text_to_segments :: "string \<Rightarrow> segment list"
  create_material_from_dict :: "pyval \<Rightarrow> string + pyval"
  refuses :: "entity \<Rightarrow> string \<Rightarrow> pyval \<Rightarrow> error option"
  compile_eval :: "string \<Rightarrow> compiled"
  compile_exec :: "string \<Rightarrow> compiled"
  eval_code :: "string \<Rightarrow> nat \<Rightarrow> nat \<Rightarrow> viewer \<Rightarrow> run"
  exec_code :: "string \<Rightarrow> nat \<Rightarrow> nat \<Rightarrow> viewer \<Rightarrow> run"
  repr :: "pyval \<Rightarrow> string + string"
  str_of :: "pyval \<Rightarrow> string"
  dir :: "pyval \<Rightarrow> string list"
  builtins :: pyval
  main_dict :: nat
  open_image :: "string \<Rightarrow> string + pyval"

text \<open>\<open>ViewerClient.__init__\<close>, as far as the session's fields go.\<close>

definition init_viewer :: "string \<Rightarrow> bool \<Rightarrow> (nat \<Rightarrow> pydict) \<Rightarrow> viewer" where
  "init_viewer vid interactive_console st =
     \<lparr> viewer_id = vid,
       objects = [],
       ui_controls = [],
       interactive_console_enabled = interactive_console,
       console_disabled_warning_emitted = False,
       print_buffer = [],
       capture_prints_enabled = False,
       console_scope_globals = None,
       console_scope_locals = None,
       request_threads = (\<lambda>k. False),
       request_data = (\<lambda>k. VNone),
       store = st,
       effects = [] \<rparr>"

definition do_effect :: "effect \<Rightarrow> viewer \<Rightarrow> viewer" where
  "do_effect x s = s\<lparr>effects := effects s @ [x]\<rparr>"

subsection \<open>Registering objects and controls\<close>

text \<open>
  The tail shared by \<open>add_mesh\<close>, \<open>add_animated_mesh\<close>, \<open>add_points\<close> and \<open>add_arrows\<close>
  once the instance is built with \<open>name=name\<close>: store it under its name, emit it.
\<close>

definition add_object :: "entity \<Rightarrow> viewer \<Rightarrow> viewer" where
  "add_object obj s =
     do_effect (EmitAddGeometry obj) (s\<lparr>objects := dict_set (ent_name obj) obj (objects s)\<rparr>)"

definition add_control :: "entity \<Rightarrow> viewer \<Rightarrow> viewer" where
  "add_control control s =
     do_effect (EmitAddControl control)
       (s\<lparr>ui_controls := dict_set (ent_name control) control (ui_controls s)\<rparr>)"

subsection \<open>Console text\<close>

definition color_segment :: "string option \<Rightarrow> segment \<Rightarrow> segment" where
  "color_segment color seg =
     (case color of
        None \<Rightarrow> seg
      | Some c \<Rightarrow> (if snd seg = None \<or> snd seg = Some [] then (fst seg, Some c) else seg))"

definition emit_console_text :: "env \<Rightarrow> string \<Rightarrow> string option \<Rightarrow> viewer \<Rightarrow> viewer" where
  "emit_console_text E txt color s =
     (if txt = [] then s
      else do_effect
             (EmitConsoleOutput (map (color_segment color) (split_text_to_segments E txt)))
             (s\<lparr>print_buffer := print_buffer s @ txt\<rparr>))"

definition print_colored :: "string \<Rightarrow> string option \<Rightarrow> string \<Rightarrow> viewer \<Rightarrow> viewer" where
  "print_colored txt color end_str s = do_effect (EmitConsoleOutput [(txt @ end_str, color)]) s"

section \<open>Inbound handlers\<close>

text \<open>
  A call either raises or returns; both leave a session behind. \<open>Raised e s\<close> is the
  exception \<open>e\<close> with the session as it is when the exception leaves the call.
\<close>

datatype 'a outcome = Raised error (session: viewer) | Returned 'a (session: viewer)

abbreviation Done :: "viewer \<Rightarrow> unit outcome" where
  "Done s \<equiv> Returned () s"

subsection \<open>Heartbeat, control events, restart\<close>

definition handle_heartbeat :: "viewer \<Rightarrow> pyval \<Rightarrow> unit outcome" where
  "handle_heartbeat s data =
     (case msg_get data ''viewer_id'' VNone of
        Inl e \<Rightarrow> Raised e s
      | Inr vid \<Rightarrow>
          if vid \<noteq> VStr (viewer_id s) then Done s
          else Done (do_effect
                 (Emit ''client_heartbeat'' (VDict [(''viewer_id'', VStr (viewer_id s))])) s))"

definition handle_ui_event :: "pyval \<Rightarrow> pyval \<Rightarrow> pyval \<Rightarrow> viewer \<Rightarrow> unit outcome" where
  "handle_ui_event event_type control_id v s =
     (case registry_get (ui_controls s) control_id of
        Inl e \<Rightarrow> Raised e s
      | Inr None \<Rightarrow> Done s
      | Inr (Some control) \<Rightarrow> Done (do_effect (ControlEvent (ent_name control) v) s))"

definition handle_ui_event_from_server :: "env \<Rightarrow> viewer \<Rightarrow> pyval \<Rightarrow> unit outcome" where
  "handle_ui_event_from_server E s data =
     (case msg_get data ''viewer_id'' VNone of
        Inl e \<Rightarrow> Raised e s
      | Inr vid \<Rightarrow>
          if vid \<noteq> VStr (viewer_id s) then Done s
          else
            (let event_type = get_or (msg_fields data) ''eventType'' VNone;
                 control_id = get_or (msg_fields data) ''controlId'' VNone;
                 v = as_array E (get_or (msg_fields data) ''value'' VNone)
             in case handle_ui_event event_type control_id v s of
                  Raised e s1 \<Rightarrow> Raised e s1
                | Returned u s1 \<Rightarrow> Done (do_effect (Trigger ''control'' [control_id, v]) s1)))"

definition handle_restart_script :: "viewer \<Rightarrow> pyval \<Rightarrow> unit outcome" where
  "handle_restart_script s data =
     (case msg_get data ''viewer_id'' VNone of
        Inl e \<Rightarrow> Raised e s
      | Inr vid \<Rightarrow> if vid \<noteq> VStr (viewer_id s) then Done s else Done (do_effect Restart s))"

subsection \<open>Object updates\<close>

text \<open>
  \<open>setattr(obj, key, v)\<close>: the exception the object's class raises, or the object with
  the attribute set.
\<close>

definition setattr :: "env \<Rightarrow> entity \<Rightarrow> string \<Rightarrow> pyval \<Rightarrow> error + entity" where
  "setattr E obj k v =
     (case refuses E obj k v of
        Some e \<Rightarrow> Inl e
      | None \<Rightarrow> Inr (obj\<lparr>ent_attrs := dict_set k v (ent_attrs obj)\<rparr>))"

definition is_tagged_dict :: "pyval \<Rightarrow> bool" where
  "is_tagged_dict v = (case v of VDict d \<Rightarrow> map_of d ''type'' \<noteq> None | _ \<Rightarrow> False)"

definition material_warning :: "string \<Rightarrow> string" where
  "material_warning e = ''Warning: Could not recreate material from dict: '' @ e"

text \<open>
  The \<open>except Exception as e\<close> branch for a material: print the warning, then assign
  the dict as it came. This assignment is outside every \<open>try\<close>.
\<close>

definition keep_raw_material :: "env \<Rightarrow> entity \<Rightarrow> string list \<Rightarrow> string \<Rightarrow> pyval \<Rightarrow> string \<Rightarrow> error option \<times> entity \<times> string list" where
  "keep_raw_material E obj out key v msg =
     (case setattr E obj key v of
        Inr obj1 \<Rightarrow> (None, obj1, out @ [material_warning msg])
      | Inl e \<Rightarrow> (Some e, obj, out @ [material_warning msg]))"

text \<open>
  One round of the loop over \<open>updates.items()\<close>, from the object and the warnings
  printed so far: the exception that leaves the round (if any), the object and the
  warnings after it. Rebuilding the material and assigning it are inside the \<open>try\<close>;
  the assignments of the \<open>except\<close> and the \<open>else\<close> branch are not.
\<close>

definition apply_update :: "env \<Rightarrow> entity \<Rightarrow> string list \<Rightarrow> string \<times> pyval \<Rightarrow> error option \<times> entity \<times> string list" where
  "apply_update E obj out kv =
     (let key = fst kv; v = snd kv in
      if hasattr obj key then
        (if key = ''material'' \<and> is_tagged_dict v then
           (case create_material_from_dict E v of
              Inr material_obj \<Rightarrow>
                (case setattr E obj key material_obj of
                   Inr obj1 \<Rightarrow> (None, obj1, out)
                 | Inl e \<Rightarrow> keep_raw_material E obj out key v (error_message e))
            | Inl msg \<Rightarrow> keep_raw_material E obj out key v msg)
         else
           (case setattr E obj key v of
              Inr obj1 \<Rightarrow> (None, obj1, out)
            | Inl e \<Rightarrow> (Some e, obj, out)))
      else (None, obj, out))"

text \<open>The loop: an exception ends it, with the keys before it applied.\<close>

fun apply_updates :: "env \<Rightarrow> entity \<Rightarrow> string list \<Rightarrow> (string \<times> pyval) list \<Rightarrow> error option \<times> entity \<times> string list" where
  "apply_updates E obj out [] = (None, obj, out)"
| "apply_updates E obj out (kv # items) =
     (case apply_update E obj out kv of
        (Some e, obj1, out1) \<Rightarrow> (Some e, obj1, out1)
      | (None, obj1, out1) \<Rightarrow> apply_updates E obj1 out1 items)"

text \<open>
  The handler mutates the registered object in place and prints as it goes; the model
  writes the object back under its key (a key that was found is a string) and logs the
  warnings, whether the loop ends or raises. The event is triggered only after the loop.
\<close>

definition handle_update_object :: "env \<Rightarrow> viewer \<Rightarrow> pyval \<Rightarrow> unit outcome" where
  "handle_update_object E s data =
     (case msg_get data ''viewer_id'' VNone of
        Inl e \<Rightarrow> Raised e s
      | Inr vid \<Rightarrow>
          if vid \<noteq> VStr (viewer_id s) then Done s
          else
            (let obj_id = get_or (msg_fields data) ''id'' VNone;
                 updates = get_or (msg_fields data) ''updates'' (VDict [])
             in case registry_get (objects s) obj_id of
                  Inl e \<Rightarrow> Raised e s
                | Inr None \<Rightarrow> Done s
                | Inr (Some obj) \<Rightarrow>
                    (case as_array E updates of
                       VDict items \<Rightarrow>
                         (case apply_updates E obj [] items of
                            (r, obj1, out) \<Rightarrow>
                              (let name = (case obj_id of VStr n \<Rightarrow> n | _ \<Rightarrow> []);
                                   s1 = s\<lparr>objects := dict_set name obj1 (objects s),
                                          effects := effects s @ map Print out\<rparr>
                               in case r of
                                    Some e \<Rightarrow> Raised e s1
                                  | None \<Rightarrow>
                                      Done (do_effect
                                        (Trigger ''update_object'' [obj_id, VDict items]) s1)))
                     | _ \<Rightarrow> Raised (AttributeError ''items'') s)))"

section \<open>String operations of the Python library\<close>

definition is_space :: "char \<Rightarrow> bool" where
  "is_space c = (c \<in> set [CHR '' '', CHR 0x09, CHR 0x0A, CHR 0x0B, CHR 0x0C, CHR 0x0D,
                           CHR 0x1C, CHR 0x1D, CHR 0x1E, CHR 0x1F])"

definition rstrip :: "string \<Rightarrow> string" where
  "rstrip s = rev (dropWhile is_space (rev s))"

definition strip :: "string \<Rightarrow> string" where
  "strip s = dropWhile is_space (rstrip s)"

text \<open>\<open>s.rstrip('\n')\<close>\<close>

definition rstrip_newlines :: "string \<Rightarrow> string" where
  "rstrip_newlines s = rev (dropWhile (\<lambda>c. c = CHR 0x0A) (rev s))"

definition startswith :: "string \<Rightarrow> string \<Rightarrow> bool" where
  "startswith s p = (take (length p) s = p)"

definition endswith :: "string \<Rightarrow> string \<Rightarrow> bool" where
  "endswith s p = startswith (rev s) (rev p)"

text \<open>\<open>s.rsplit('.', 1)\<close> for an \<open>s\<close> that holds a dot: the text before and after the last one.\<close>

definition rsplit_dot :: "string \<Rightarrow> string \<times> string" where
  "rsplit_dot s =
     (rev (tl (dropWhile (\<lambda>c. c \<noteq> CHR ''.'') (rev s))),
      rev (takeWhile (\<lambda>c. c \<noteq> CHR ''.'') (rev s)))"

text \<open>\<open>s.replace(old, '')\<close>: every occurrence, left to right, without overlaps.\<close>

function replace_by_empty :: "string \<Rightarrow> string \<Rightarrow> string" where
  "replace_by_empty old s =
     (if s = [] \<or> old = [] then s
      else if startswith s old then replace_by_empty old (drop (length old) s)
      else hd s # replace_by_empty old (tl s))"
  by pat_completeness auto
termination
  by (relation "measure (\<lambda>(old, s). length s)") auto

declare replace_by_empty.simps [simp del]

text \<open>\<open>sep.join(xs)\<close>\<close>

fun join :: "string \<Rightarrow> string list \<Rightarrow> string" where
  "join sep [] = []"
| "join sep [x] = x"
| "join sep (x # y # ys) = x @ sep @ join sep (y # ys)"

text \<open>
  \<open>re.search(r'([A-Za-z_][A-Za-z0-9_]*)$', s)\<close> on a string without a trailing newline:
  the leftmost position from which an identifier runs to the end of the string.
\<close>

definition is_ident_start :: "char \<Rightarrow> bool" where
  "is_ident_start c =
     ((CHR ''A'' \<le> c \<and> c \<le> CHR ''Z'') \<or> (CHR ''a'' \<le> c \<and> c \<le> CHR ''z'') \<or> c = CHR ''_'')"

definition is_ident_char :: "char \<Rightarrow> bool" where
  "is_ident_char c = (is_ident_start c \<or> (CHR ''0'' \<le> c \<and> c \<le> CHR ''9''))"

fun trailing_identifier :: "string \<Rightarrow> string option" where
  "trailing_identifier [] = None"
| "trailing_identifier (c # cs) =
     (if is_ident_start c \<and> list_all is_ident_char cs then Some (c # cs)
      else trailing_identifier cs)"

text \<open>\<open>s.lower()\<close> on ASCII letters.\<close>

definition lower_char :: "char \<Rightarrow> char" where
  "lower_char c =
     (case map_of (zip ''ABCDEFGHIJKLMNOPQRSTUVWXYZ'' ''abcdefghijklmnopqrstuvwxyz'') c of
        Some l \<Rightarrow> l
      | None \<Rightarrow> c)"

definition lower :: "string \<Rightarrow> string" where
  "lower s = map lower_char s"

text \<open>
  The extension \<open>os.path.splitext\<close> returns on POSIX: from the last dot of the last
  path component on, unless only dots stand before it in that component.
\<close>

definition splitext_ext :: "string \<Rightarrow> string" where
  "splitext_ext p =
     (let comp = rev (takeWhile (\<lambda>c. c \<noteq> CHR ''/'') (rev p)) in
      if CHR ''.'' \<in> set comp \<and> (\<exists>c \<in> set (fst (rsplit_dot comp)). c \<noteq> CHR ''.'')
      then CHR ''.'' # snd (rsplit_dot comp) else [])"

section \<open>The remote console\<close>

definition set_console_scope :: "nat option \<Rightarrow> nat option \<Rightarrow> viewer \<Rightarrow> viewer" where
  "set_console_scope globals_dict locals_dict s =
     (case globals_dict of
        None \<Rightarrow> s
      | Some g \<Rightarrow>
          s\<lparr>console_scope_globals := Some g,
            console_scope_locals := Some (case locals_dict of Some l \<Rightarrow> l | None \<Rightarrow> g)\<rparr>)"

text \<open>
  \<open>_resolve_console_scope\<close>: the configured scope, else the dict of \<open>__main__\<close>; the
  globals get a \<open>__builtins__\<close> entry when they have none.
\<close>

definition resolve_console_scope :: "env \<Rightarrow> viewer \<Rightarrow> (nat \<times> nat) \<times> viewer" where
  "resolve_console_scope E s =
     (let g = (case console_scope_globals s of None \<Rightarrow> main_dict E | Some g \<Rightarrow> g);
          l0 = (case console_scope_globals s of None \<Rightarrow> Some g | Some _ \<Rightarrow> console_scope_locals s);
          l = (case l0 of None \<Rightarrow> g | Some l \<Rightarrow> l)
      in ((g, l),
          (if map_of (store s g) ''__builtins__'' = None
           then s\<lparr>store := (store s)(g := dict_set ''__builtins__'' (builtins E) (store s g))\<rparr>
           else s)))"

definition console_disabled_text :: string where
  "console_disabled_text =
     ''[Panopti] Interactive console is disabled for this viewer. '' @
     ''Reconnect with panopti.connect(..., interactive_console=True) to enable Python execution.'' @
     [CHR 0x0A]"

definition warn_console_disabled_once :: "env \<Rightarrow> viewer \<Rightarrow> viewer" where
  "warn_console_disabled_once E s =
     (if console_disabled_warning_emitted s then s
      else emit_console_text E console_disabled_text (Some ''yellow'')
             (s\<lparr>console_disabled_warning_emitted := True\<rparr>))"

text \<open>\<open>str(command or '')\<close>\<close>

definition command_text :: "env \<Rightarrow> pyval \<Rightarrow> string" where
  "command_text E command =
     (if truthy command then (case command of VStr c \<Rightarrow> c | v \<Rightarrow> str_of E v) else [])"

text \<open>
  Console code writes to the ambient standard streams when the call does not redirect
  them (print mirroring is active); it does so while it runs.
\<close>

definition ambient_output :: "bool \<Rightarrow> string \<Rightarrow> string \<Rightarrow> viewer \<Rightarrow> viewer" where
  "ambient_output capture_output out err s =
     (if capture_output then s
      else s\<lparr>effects := effects s @ (if out = [] then [] else [StdoutWrite out])
                                   @ (if err = [] then [] else [StderrWrite err])\<rparr>)"

text \<open>
  The body of the \<open>try\<close> in \<open>_execute_console_command\<close>: \<open>Inl\<close> carries the traceback of
  what was raised. Each result comes with the session and the captured streams.
\<close>

definition console_try :: "env \<Rightarrow> string \<Rightarrow> nat \<Rightarrow> nat \<Rightarrow> bool \<Rightarrow> viewer \<Rightarrow> (string + unit) \<times> viewer \<times> string \<times> string" where
  "console_try E command g l capture_output s =
     (case compile_eval E command of
        SyntaxError tb0 \<Rightarrow>
          (case compile_exec E command of
             Code \<Rightarrow>
               (case exec_code E command g l s of
                  Run r s2 out err \<Rightarrow>
                    (case r of
                       Inl tb \<Rightarrow> (Inl tb, ambient_output capture_output out err s2, out, err)
                     | Inr v \<Rightarrow> (Inr (), ambient_output capture_output out err s2, out, err)))
           | SyntaxError tb \<Rightarrow> (Inl tb, s, [], [])
           | CompileError tb \<Rightarrow> (Inl tb, s, [], []))
      | CompileError tb \<Rightarrow> (Inl tb, s, [], [])
      | Code \<Rightarrow>
          (case eval_code E command g l s of
             Run r s2 out err \<Rightarrow>
               (case r of
                  Inl tb \<Rightarrow> (Inl tb, ambient_output capture_output out err s2, out, err)
                | Inr result \<Rightarrow>
                    if result \<noteq> VNone then
                      (case repr E result of
                         Inl tb \<Rightarrow> (Inl tb, ambient_output capture_output out err s2, out, err)
                       | Inr t \<Rightarrow>
                           (Inr (),
                            emit_console_text E (t @ [CHR 0x0A]) None
                              (ambient_output capture_output out err s2),
                            out, err))
                    else (Inr (), ambient_output capture_output out err s2, out, err))))"

text \<open>The \<open>finally\<close> block: what the redirected streams captured goes to the console.\<close>

definition flush_captured :: "env \<Rightarrow> bool \<Rightarrow> string \<Rightarrow> string \<Rightarrow> viewer \<Rightarrow> viewer" where
  "flush_captured E capture_output out err s =
     (if capture_output
      then emit_console_text E err (Some ''red'') (emit_console_text E out None s)
      else s)"

definition execute_console_command :: "env \<Rightarrow> viewer \<Rightarrow> pyval \<Rightarrow> viewer" where
  "execute_console_command E s command0 =
     (let command = rstrip_newlines (command_text E command0) in
      if strip command = [] then s
      else
        (case resolve_console_scope E s of
           ((g, l), s1) \<Rightarrow>
             (let capture_output = \<not> capture_prints_enabled s in
              case console_try E command g l capture_output s1 of
                (r, s2, out, err) \<Rightarrow>
                  flush_captured E capture_output out err
                    (case r of
                       Inl tb \<Rightarrow> emit_console_text E tb (Some ''red'') s2
                     | Inr _ \<Rightarrow> s2))))"

text \<open>The built-in \<open>eval\<close> on source text: compile, then evaluate.\<close>

definition eval_source :: "env \<Rightarrow> string \<Rightarrow> nat \<Rightarrow> nat \<Rightarrow> viewer \<Rightarrow> run" where
  "eval_source E src g l s =
     (case compile_eval E src of
        Code \<Rightarrow> eval_code E src g l s
      | SyntaxError tb \<Rightarrow> Run (Inl tb) s [] []
      | CompileError tb \<Rightarrow> Run (Inl tb) s [] [])"

text \<open>
  The names completion searches without a dot: the keys of the globals, the keys of the
  locals, and the built-in names (the keys of \<open>__builtins__\<close> when that is a dict, its
  \<open>dir\<close> otherwise).
\<close>

definition scope_names :: "env \<Rightarrow> viewer \<Rightarrow> nat \<Rightarrow> nat \<Rightarrow> string list" where
  "scope_names E s g l =
     (let builtins_obj = get_or (store s g) ''__builtins__'' (builtins E);
          builtins_names = (case builtins_obj of
                              VDict d \<Rightarrow> map fst d
                            | v \<Rightarrow> dir E v)
      in map fst (store s g) @ map fst (store s l) @ builtins_names)"

definition collect_console_completions :: "env \<Rightarrow> viewer \<Rightarrow> pyval \<Rightarrow> (string + string list) \<times> viewer" where
  "collect_console_completions E s command =
     (let source = rstrip (command_text E command) in
      if source = [] then (Inr [], s)
      else
        (case resolve_console_scope E s of
           ((g, l), s1) \<Rightarrow>
             (let object_expr = (if CHR ''.'' \<in> set source then strip (fst (rsplit_dot source)) else []);
                  prefix0 = (if CHR ''.'' \<in> set source then snd (rsplit_dot source) else [])
              in if object_expr \<noteq> [] then
                   (case eval_source E object_expr g l s1 of
                      Run r s2 out err \<Rightarrow>
                        (case r of
                           Inl tb \<Rightarrow> (Inl tb, ambient_output False out err s2)
                         | Inr target \<Rightarrow>
                             (Inr (sort (remdups
                                (if prefix0 \<noteq> []
                                 then filter (\<lambda>name. startswith name prefix0) (dir E target)
                                 else filter (\<lambda>name. \<not> startswith name ''__'') (dir E target)))),
                              ambient_output False out err s2)))
                 else
                   (case trailing_identifier source of
                      None \<Rightarrow> (Inr [], s1)
                    | Some prefix \<Rightarrow>
                        (Inr (sort (remdups (filter (\<lambda>name. startswith name prefix)
                                               (scope_names E s1 g l)))),
                         s1)))))"

definition emit_completion_list :: "env \<Rightarrow> string list \<Rightarrow> viewer \<Rightarrow> viewer" where
  "emit_completion_list E completions s =
     (if completions = [] then
        emit_console_text E (''(no completions)'' @ [CHR 0x0A]) (Some ''yellow'') s
      else emit_console_text E (join '', '' completions @ [CHR 0x0A]) None s)"

definition handle_console_command :: "env \<Rightarrow> viewer \<Rightarrow> pyval \<Rightarrow> unit outcome" where
  "handle_console_command E s data =
     (case data of
        VDict d \<Rightarrow>
          if get_or d ''viewer_id'' VNone \<noteq> VStr (viewer_id s) then Done s
          else if \<not> interactive_console_enabled s then Done (warn_console_disabled_once E s)
          else Done (execute_console_command E s (get_or d ''command'' (VStr [])))
      | _ \<Rightarrow> Done s)"

definition handle_console_complete :: "env \<Rightarrow> viewer \<Rightarrow> pyval \<Rightarrow> unit outcome" where
  "handle_console_complete E s data =
     (case data of
        VDict d \<Rightarrow>
          if get_or d ''viewer_id'' VNone \<noteq> VStr (viewer_id s) then Done s
          else if \<not> interactive_console_enabled s then Done (warn_console_disabled_once E s)
          else
            (case collect_console_completions E s (get_or d ''command'' (VStr [])) of
               (Inr completions, s1) \<Rightarrow> Done (emit_completion_list E completions s1)
             | (Inl tb, s1) \<Rightarrow> Done (emit_console_text E tb (Some ''red'') s1))
      | _ \<Rightarrow> Done s)"

section \<open>Full-state resync and state requests\<close>

definition handle_request_state :: "env \<Rightarrow> viewer \<Rightarrow> pyval \<Rightarrow> unit outcome" where
  "handle_request_state E s data =
     (let s1 = do_effect (Emit ''console_meta''
                 (VDict [(''enabled'', VBool (interactive_console_enabled s))])) s;
          s2 = do_effect (EmitWithFallback ''set_camera''
                 (VDict [(''camera'', as_list E DEFAULT_CAMERA_STATE)])) s1;
          s3 = s2\<lparr>effects := effects s2 @
                 map EmitAddGeometry (filter (\<lambda>obj. hasattr obj ''to_dict'') (map snd (objects s2)))\<rparr>;
          s4 = s3\<lparr>effects := effects s3 @
                 map EmitAddControl (filter (\<lambda>c. hasattr c ''to_dict'') (map snd (ui_controls s3)))\<rparr>;
          txt = print_buffer s4
      in Done (if txt \<noteq> [] then do_effect (EmitConsoleOutput (split_text_to_segments E txt)) s4
              else s4))"

definition emit_state_request :: "env \<Rightarrow> viewer \<Rightarrow> pyval \<Rightarrow> unit outcome" where
  "emit_state_request E s data =
     (case msg_get data ''viewer_id'' VNone of
        Inl e \<Rightarrow> Raised e s
      | Inr vid \<Rightarrow>
          if vid \<noteq> VStr (viewer_id s) then Done s
          else
            (case get_or (msg_fields data) ''event'' VNone of
               VStr event \<Rightarrow>
                 (let event_basename = replace_by_empty ''request_'' event;
                      event_data = get_or (msg_fields data) ''data'' (VDict [])
                  in if event_basename \<notin> set request_events
                     then Raised (ValueError (''Unknown state request event: '' @ event)) s
                     else Done (do_effect
                            (Emit ''relay_state_request''
                               (VDict [(''event'', VStr event),
                                       (''viewer_id'', VStr (viewer_id s)),
                                       (''data'', as_list E event_data)]))
                            (s\<lparr>request_threads := (request_threads s)(event_basename := False),
                               request_data := (request_data s)(event_basename := VNone)\<rparr>)))
             | _ \<Rightarrow> Raised (AttributeError ''replace'') s))"

definition handle_state_request :: "viewer \<Rightarrow> pyval \<Rightarrow> unit outcome" where
  "handle_state_request s data =
     (case msg_get data ''viewer_id'' VNone of
        Inl e \<Rightarrow> Raised e s
      | Inr vid \<Rightarrow>
          if vid \<noteq> VStr (viewer_id s) then Done s
          else
            (case get_or (msg_fields data) ''event'' VNone of
               VStr event \<Rightarrow>
                 (let event_basename = replace_by_empty ''request_'' event
                  in if event_basename \<notin> set request_events
                     then Raised (ValueError (''Unknown state request event: '' @ event)) s
                     else Done (s\<lparr>request_data := (request_data s)
                                   (event_basename := get_or (msg_fields data) ''data'' VNone),
                                 request_threads := (request_threads s)(event_basename := True)\<rparr>))
             | _ \<Rightarrow> Raised (AttributeError ''replace'') s))"

subsection \<open>Panopti events\<close>

definition handle_events :: "env \<Rightarrow> string \<Rightarrow> string \<Rightarrow> bool \<Rightarrow> viewer \<Rightarrow> pyval \<Rightarrow> unit outcome" where
  "handle_events E field name convert s data =
     (case msg_get data ''viewer_id'' VNone of
        Inl e \<Rightarrow> Raised e s
      | Inr vid \<Rightarrow>
          if vid \<noteq> VStr (viewer_id s) then Done s
          else
            (let payload = get_or (msg_fields data) field VNone
             in Done (do_effect (Trigger name [if convert then as_array E payload else payload]) s)))"

definition handle_events_camera :: "env \<Rightarrow> viewer \<Rightarrow> pyval \<Rightarrow> unit outcome" where
  "handle_events_camera E = handle_events E ''camera'' ''camera'' True"

definition handle_events_inspect :: "env \<Rightarrow> viewer \<Rightarrow> pyval \<Rightarrow> unit outcome" where
  "handle_events_inspect E = handle_events E ''inspection'' ''inspect'' True"

definition handle_events_select_object :: "env \<Rightarrow> viewer \<Rightarrow> pyval \<Rightarrow> unit outcome" where
  "handle_events_select_object E = handle_events E ''selected_object'' ''select_object'' False"

definition handle_events_gizmo :: "env \<Rightarrow> viewer \<Rightarrow> pyval \<Rightarrow> unit outcome" where
  "handle_events_gizmo E = handle_events E ''gizmo'' ''gizmo'' True"

subsection \<open>The handlers registered on the transport\<close>

text \<open>
  The table \<open>ViewerClient.__init__\<close> builds with \<open>self.client.on(event, handler)\<close>; an
  event without a handler is ignored.
\<close>

definition on_event :: "env \<Rightarrow> string \<Rightarrow> viewer \<Rightarrow> pyval \<Rightarrow> unit outcome" where
  "on_event E event s data =
     (if event = ''ui_event_response'' then handle_ui_event_from_server E s data
      else if event = ''update_object'' then handle_update_object E s data
      else if event = ''restart_script'' then handle_restart_script s data
      else if event = ''console_command'' then handle_console_command E s data
      else if event = ''console_complete'' then handle_console_complete E s data
      else if event = ''request_state_from_client'' then handle_request_state E s data
      else if event \<in> set request_events then handle_state_request s data
      else if event = ''events.camera'' then handle_events_camera E s data
      else if event = ''events.inspect'' then handle_events_inspect E s data
      else if event = ''events.select_object'' then handle_events_select_object E s data
      else if event = ''events.gizmo'' then handle_events_gizmo E s data
      else if event = ''viewer_heartbeat'' then handle_heartbeat s data
      else Done s)"

section \<open>Pull calls\<close>

text \<open>
  A pull call sends its request and then waits on the kind's \<open>threading.Event\<close> with a
  timeout. While it waits, the transport's thread handles the inbound messages that
  arrive (\<open>inbound\<close>, in order; none at all when nothing arrives before the timeout); an
  exception raised by a handler stays on that thread. \<open>Event.wait\<close> then returns the flag.
\<close>

fun deliver :: "env \<Rightarrow> viewer \<Rightarrow> (string \<times> pyval) list \<Rightarrow> viewer" where
  "deliver E s [] = s"
| "deliver E s (m # ms) =
     deliver E (session (on_event E (fst m) s (snd m))) ms"

definition camera :: "env \<Rightarrow> viewer \<Rightarrow> (string \<times> pyval) list \<Rightarrow> pyval outcome" where
  "camera E s inbound =
     (case emit_state_request E s
             (VDict [(''event'', VStr ''request_camera_info''), (''viewer_id'', VStr (viewer_id s))]) of
        Raised e s1 \<Rightarrow> Raised e s1
      | Returned u s1 \<Rightarrow>
          (let s2 = deliver E s1 inbound in
           if request_threads s2 ''camera_info''
           then Returned (as_array E (request_data s2 ''camera_info'')) s2
           else Returned VNone s2))"

definition selected_object :: "env \<Rightarrow> viewer \<Rightarrow> (string \<times> pyval) list \<Rightarrow> pyval outcome" where
  "selected_object E s inbound =
     (case emit_state_request E s
             (VDict [(''event'', VStr ''request_selected_object''), (''viewer_id'', VStr (viewer_id s))]) of
        Raised e s1 \<Rightarrow> Raised e s1
      | Returned u s1 \<Rightarrow>
          (let s2 = deliver E s1 inbound in
           if request_threads s2 ''selected_object''
           then Returned (request_data s2 ''selected_object'') s2
           else Returned VNone s2))"

text \<open>
  The array \<open>np.array(img.convert(mode))\<close>: the mode and the decoded image. An \<open>RGBA\<close>
  image has four channels, an \<open>RGB\<close> image three.
\<close>

datatype pixels = Pixels string pyval

fun channels :: "pixels \<Rightarrow> nat" where
  "channels (Pixels mode img) = (if mode = ''RGBA'' then 4 else 3)"

text \<open>
  From the reply to the base64 text: \<open>',' in img_b64\<close>, \<open>img_b64.split(',', 1)\<close> and
  \<open>b64decode\<close> need a string.
\<close>

fun b64_text :: "pyval \<Rightarrow> error + string" where
  "b64_text (VStr b) =
     Inr (if CHR '','' \<in> set b then tl (dropWhile (\<lambda>c. c \<noteq> CHR '','') b) else b)"
| "b64_text (VList xs) =
     Inl (if VStr '','' \<in> set xs then AttributeError ''split'' else TypeError ''b64decode'')"
| "b64_text (VDict d) =
     Inl (if map_of d '','' \<noteq> None then AttributeError ''split'' else TypeError ''b64decode'')"
| "b64_text v = Inl (TypeError ''not iterable'')"

text \<open>
  The rest of \<open>screenshot\<close> once the image is open. \<open>ext\<close> is assigned only under
  \<open>if filename:\<close> and read after it.
\<close>

definition truthy_name :: "string option \<Rightarrow> bool" where
  "truthy_name filename = (filename \<noteq> None \<and> filename \<noteq> Some [])"

definition screenshot_image :: "string option \<Rightarrow> pyval \<Rightarrow> viewer \<Rightarrow> pixels option outcome" where
  "screenshot_image filename img s =
     (case (if truthy_name filename then filename else None) of
        Some f \<Rightarrow>
          (let ext = (if splitext_ext f = [] then ''.png'' else splitext_ext f) in
           if lower ext \<notin> set [''.png'', ''.jpg'', ''.jpeg'']
           then Raised (ValueError (''Unsupported file extension: '' @ ext @
                       ''. Supported extensions are: .png, .jpg, .jpeg'')) s
           else
             (let fname = (if endswith f ext then f else f @ ext);
                  mode = (if lower ext = ''.png'' then ''RGBA'' else ''RGB'')
              in Returned (Some (Pixels mode img)) (do_effect (SaveImage fname mode img) s)))
      | None \<Rightarrow> Raised (UnboundLocalError ''ext'') s)"

text \<open>What \<open>screenshot\<close> does with the reply once the wait has returned true.\<close>

definition decode_screenshot :: "env \<Rightarrow> string option \<Rightarrow> pyval \<Rightarrow> viewer \<Rightarrow> pixels option outcome" where
  "decode_screenshot E filename img_b64 s =
     (if \<not> truthy img_b64 then Returned None s
      else
        (case b64_text img_b64 of
           Inl e \<Rightarrow> Raised e s
         | Inr b64data \<Rightarrow>
             (case open_image E b64data of
                Inl m \<Rightarrow> Raised (ImageError m) s
              | Inr img \<Rightarrow> screenshot_image filename img s)))"

definition screenshot :: "env \<Rightarrow> viewer \<Rightarrow> string option \<Rightarrow> pyval list option \<Rightarrow> (pyval \<times> pyval) option \<Rightarrow> (string \<times> pyval) list \<Rightarrow> pixels option outcome" where
  "screenshot E s filename bg_color resolution inbound =
     (let data = VDict ([(''viewer_id'', VStr (viewer_id s))]
                   @ (case bg_color of None \<Rightarrow> [] | Some c \<Rightarrow> [(''bg_color'', VList c)])
                   @ (case resolution of None \<Rightarrow> []
                      | Some wh \<Rightarrow> [(''width'', fst wh), (''height'', snd wh)]))
      in case emit_state_request E s
                (VDict [(''event'', VStr ''request_screenshot''),
                        (''viewer_id'', VStr (viewer_id s)), (''data'', data)]) of
           Raised e s1 \<Rightarrow> Raised e s1
         | Returned u s1 \<Rightarrow>
             (let s2 = deliver E s1 inbound in
              if request_threads s2 ''screenshot''
              then decode_screenshot E filename (request_data s2 ''screenshot'') s2
              else Returned None s2))"

section \<open>Auxiliary notions for the properties\<close>

text \<open>A value that cannot be a dict key.\<close>

definition unhashable :: "pyval \<Rightarrow> bool" where
  "unhashable v = (case v of VList xs \<Rightarrow> True | VDict d \<Rightarrow> True | _ \<Rightarrow> False)"


subsection \<open>A concrete session for the examples\<close>

text \<open>
  A stand-in for the interpreter that knows exactly the commands \<open>1+1\<close>, \<open>x = 5\<close>, \<open>x\<close>
  and \<open>1/0\<close> and a few members of the integer 5, helpers that leave their argument alone,
  classes whose \<open>num_vertices\<close> is a property without a setter, a material decoder that
  knows no type tag, and an image decoder that accepts every text.
\<close>

definition demo_eval :: "string \<Rightarrow> nat \<Rightarrow> nat \<Rightarrow> viewer \<Rightarrow> run" where
  "demo_eval c g l s =
     (if c = ''1+1'' then Run (Inr (VInt 2)) s [] []
      else if c = ''x'' then
        (case map_of (store s l) ''x'' of
           Some v \<Rightarrow> Run (Inr v) s [] []
         | None \<Rightarrow> Run (Inl ''NameError: name 'x' is not defined'') s [] [])
      else if c = ''1/0'' then Run (Inl ''ZeroDivisionError: division by zero'') s [] []
      else Run (Inr VNone) s [] [])"

definition demo_exec :: "string \<Rightarrow> nat \<Rightarrow> nat \<Rightarrow> viewer \<Rightarrow> run" where
  "demo_exec c g l s =
     (if c = ''x = 5''
      then Run (Inr VNone) (s\<lparr>store := (store s)(l := dict_set ''x'' (VInt 5) (store s l))\<rparr>) [] []
      else Run (Inr VNone) s [] [])"

definition demo_env :: env where
  "demo_env =
     \<lparr> as_array = (\<lambda>v. v),
       as_list = (\<lambda>v. v),
       split_text_to_segments = (\<lambda>t. [(t, None)]),
       create_material_from_dict = (\<lambda>v. Inl ''Unknown material type''),
       refuses = (\<lambda>obj k v. if k = ''num_vertices''
                    then Some (AttributeError ''property num_vertices has no setter'') else None),
       compile_eval = (\<lambda>c. if c \<in> set [''1+1'', ''x'', ''1/0''] then Code
                            else SyntaxError ''SyntaxError: invalid syntax''),
       compile_exec = (\<lambda>c. if c = ''x = 5'' then Code
                            else SyntaxError ''SyntaxError: invalid syntax''),
       eval_code = demo_eval,
       exec_code = demo_exec,
       repr = (\<lambda>v. if v = VInt 2 then Inr ''2'' else if v = VInt 5 then Inr ''5'' else Inr ''<object>''),
       str_of = (\<lambda>v. []),
       dir = (\<lambda>v. if v = VInt 5 then [''bit_length'', ''__abs__'', ''imag'', ''real''] else []),
       builtins = VDict [(''print'', VObj 0), (''property'', VObj 1), (''len'', VObj 2)],
       main_dict = 0,
       open_image = (\<lambda>b. Inr (VObj 7)) \<rparr>"

definition demo_mesh :: entity where
  "demo_mesh =
     \<lparr> ent_class = ''Mesh'', ent_name = ''bunny'',
       ent_attrs = [(''visible'', VBool True), (''material'', VNone),
                    (''opacity'', VInt 1), (''num_vertices'', VInt 8), (''to_dict'', VObj 3)] \<rparr>"

definition demo_slider :: entity where
  "demo_slider =
     \<lparr> ent_class = ''Slider'', ent_name = ''speed'',
       ent_attrs = [(''initial'', VInt 0), (''to_dict'', VObj 4)] \<rparr>"

definition demo_viewer :: viewer where
  "demo_viewer = add_control demo_slider
                   (add_object demo_mesh (init_viewer ''viewer_1'' True (\<lambda>r. [])))"





subsection \<open>Histories of a session\<close>

text \<open>
  What the application and the console have done to a session before a resync:
  registered objects and controls, and emitted console text.
\<close>

datatype call = AddObject entity | AddControl entity | ConsoleText string "string option"

fun run_call :: "env \<Rightarrow> viewer \<Rightarrow> call \<Rightarrow> viewer" where
  "run_call E s (AddObject obj) = add_object obj s"
| "run_call E s (AddControl c) = add_control c s"
| "run_call E s (ConsoleText txt color) = emit_console_text E txt color s"

definition run_calls :: "env \<Rightarrow> viewer \<Rightarrow> call list \<Rightarrow> viewer" where
  "run_calls E s calls = foldl (run_call E) s calls"

fun added_objects :: "call list \<Rightarrow> entity list" where
  "added_objects [] = []"
| "added_objects (AddObject obj # cs) = obj # added_objects cs"
| "added_objects (c # cs) = added_objects cs"

fun added_controls :: "call list \<Rightarrow> entity list" where
  "added_controls [] = []"
| "added_controls (AddControl c # cs) = c # added_controls cs"
| "added_controls (c # cs) = added_controls cs"

fun console_texts :: "call list \<Rightarrow> string" where
  "console_texts [] = []"
| "console_texts (ConsoleText txt color # cs) = txt @ console_texts cs"
| "console_texts (c # cs) = console_texts cs"

text \<open>The outbound calls of a full-state resync, in order.\<close>

definition resync_messages :: "env \<Rightarrow> bool \<Rightarrow> entity list \<Rightarrow> entity list \<Rightarrow> string \<Rightarrow> effect list" where
  "resync_messages E enabled objs ctrls buf =
     [Emit ''console_meta'' (VDict [(''enabled'', VBool enabled)]),
      EmitWithFallback ''set_camera''
        (VDict [(''camera'', as_list E (VDict [(''projection_mode'', VStr ''perspective''),
                                             (''fov'', VInt 50),
                                             (''near'', VFloat 1 (- 1)),
                                             (''far'', VInt 1000)]))])]
     @ map EmitAddGeometry objs
     @ map EmitAddControl ctrls
     @ (if buf = [] then [] else [EmitConsoleOutput (split_text_to_segments E buf)])"


definition demo_calls :: "call list" where
  "demo_calls = [AddObject demo_mesh, ConsoleText ''hello'' None, AddControl demo_slider,
                 ConsoleText '' world'' (Some ''red'')]"


text \<open>
  The event name with the \<open>request_\<close> prefix removed, as the specification words it:
  one occurrence, at the start of the name only.
\<close>

definition without_request_prefix :: "string \<Rightarrow> string" where
  "without_request_prefix event =
     (if startswith event ''request_'' then drop (length ''request_'') event else event)"

text \<open>
  An inbound message that \<open>handle_state_request\<close> accepts as the reply for a kind: it
  comes on one of the request events, carries the session's \<open>viewer_id\<close>, and its event
  name reduces to the kind.
\<close>

definition answers :: "string \<Rightarrow> viewer \<Rightarrow> string \<times> pyval \<Rightarrow> bool" where
  "answers kind s m =
     (fst m \<in> set request_events \<and>
      (case snd m of
         VDict d \<Rightarrow>
           get_or d ''viewer_id'' VNone = VStr (viewer_id s) \<and>
           (case get_or d ''event'' VNone of
              VStr e \<Rightarrow> replace_by_empty ''request_'' e = kind
            | _ \<Rightarrow> False)
       | _ \<Rightarrow> False))"

definition console_event :: "string \<times> pyval \<Rightarrow> bool" where
  "console_event m = (fst m = ''console_command'' \<or> fst m = ''console_complete'')"

text \<open>
  A message that cannot complete a request of the kind: no reply for it, and no console
  code (which may do anything to the session).
\<close>

definition quiet :: "string \<Rightarrow> viewer \<Rightarrow> string \<times> pyval \<Rightarrow> bool" where
  "quiet kind s m = (\<not> console_event m \<and> \<not> answers kind s m)"

text \<open>The pending-request slot of a kind: completion signal and result.\<close>

definition slot :: "viewer \<Rightarrow> string \<Rightarrow> bool \<times> pyval" where
  "slot s kind = (request_threads s kind, request_data s kind)"


definition demo_reply :: "string \<Rightarrow> pyval \<Rightarrow> string \<times> pyval" where
  "demo_reply kind payload =
     (kind, VDict [(''viewer_id'', VStr ''viewer_1''), (''event'', VStr (''request_'' @ kind)),
                   (''data'', payload)])"

definition demo_heartbeat :: "string \<times> pyval" where
  "demo_heartbeat = (''viewer_heartbeat'', VDict [(''viewer_id'', VStr ''viewer_1'')])"

text \<open>A screenshot reply: a data URI with base64 text.\<close>

definition demo_png :: string where
  "demo_png = ''data:image/png;base64,iVBORw0KGgo=''"

text \<open>
  Completion as the specification words it: whenever the text holds a dot, the text
  before the last dot is evaluated as an object expression; without a dot the trailing
  identifier is matched against the scope.
\<close>

definition completions_as_specified :: "env \<Rightarrow> viewer \<Rightarrow> pyval \<Rightarrow> (string + string list) \<times> viewer" where
  "completions_as_specified E s command =
     (let source = rstrip (command_text E command) in
      if source = [] then (Inr [], s)
      else
        (case resolve_console_scope E s of
           ((g, l), s1) \<Rightarrow>
             if CHR ''.'' \<in> set source then
               (case eval_source E (strip (fst (rsplit_dot source))) g l s1 of
                  Run r s2 out err \<Rightarrow>
                    (case r of
                       Inl tb \<Rightarrow> (Inl tb, ambient_output False out err s2)
                     | Inr target \<Rightarrow>
                         (Inr (sort (remdups
                            (if snd (rsplit_dot source) \<noteq> []
                             then filter (\<lambda>name. startswith name (snd (rsplit_dot source))) (dir E target)
                             else filter (\<lambda>name. \<not> startswith name ''__'') (dir E target)))),
                          ambient_output False out err s2)))
             else
               (case trailing_identifier source of
                  None \<Rightarrow> (Inr [], s1)
                | Some prefix \<Rightarrow>
                    (Inr (sort (remdups (filter (\<lambda>name. startswith name prefix)
                                           (scope_names E s1 g l)))),
                     s1))))"

text \<open>The demo session with \<open>x = 5\<close> in the scope.\<close>

definition demo_bound :: viewer where
  "demo_bound = demo_viewer\<lparr>store := (\<lambda>r. [(''x'', VInt 5)])\<rparr>"


section \<open>Properties\<close>

subsection \<open>Dictionaries and the update loop\<close>






lemma demo_viewer_simps:
  "viewer_id demo_viewer = ''viewer_1''"
  "objects demo_viewer = [(''bunny'', demo_mesh)]"
  "ui_controls demo_viewer = [(''speed'', demo_slider)]"
  "effects demo_viewer = [EmitAddGeometry demo_mesh, EmitAddControl demo_slider]"
  "print_buffer demo_viewer = []"
  "interactive_console_enabled demo_viewer = True"
  by (simp_all add: demo_viewer_def add_control_def add_object_def do_effect_def init_viewer_def
        demo_mesh_def demo_slider_def)

lemma demo_env_simps:
  "as_array demo_env = (\<lambda>v. v)"
  "as_list demo_env = (\<lambda>v. v)"
  "split_text_to_segments demo_env = (\<lambda>t. [(t, None)])"
  "create_material_from_dict demo_env = (\<lambda>v. Inl ''Unknown material type'')"
  "compile_eval demo_env = (\<lambda>c. if c \<in> set [''1+1'', ''x'', ''1/0''] then Code
                                   else SyntaxError ''SyntaxError: invalid syntax'')"
  "compile_exec demo_env = (\<lambda>c. if c = ''x = 5'' then Code
                                   else SyntaxError ''SyntaxError: invalid syntax'')"
  "repr demo_env = (\<lambda>v. if v = VInt 2 then Inr ''2'' else if v = VInt 5 then Inr ''5''
                           else Inr ''<object>'')"
  "refuses demo_env = (\<lambda>obj k v. if k = ''num_vertices''
                    then Some (AttributeError ''property num_vertices has no setter'') else None)"
  "eval_code demo_env = demo_eval"
  "exec_code demo_env = demo_exec"
  "str_of demo_env = (\<lambda>v. [])"
  "dir demo_env = (\<lambda>v. if v = VInt 5 then [''bit_length'', ''__abs__'', ''imag'', ''real''] else [])"
  "builtins demo_env = VDict [(''print'', VObj 0), (''property'', VObj 1), (''len'', VObj 2)]"
  "main_dict demo_env = 0"
  "open_image demo_env = (\<lambda>b. Inr (VObj 7))"
  by (simp_all add: demo_env_def)



subsection \<open>Updates for an object that is not registered\<close>





subsection \<open>A material that cannot be rebuilt\<close>




subsection \<open>Messages for another viewer\<close>

lemma mismatch_heartbeat:
  "get_or d ''viewer_id'' VNone \<noteq> VStr (viewer_id s) \<Longrightarrow> handle_heartbeat s (VDict d) = Done s"
  by (simp add: handle_heartbeat_def)

lemma mismatch_ui_event:
  "get_or d ''viewer_id'' VNone \<noteq> VStr (viewer_id s) \<Longrightarrow>
   handle_ui_event_from_server E s (VDict d) = Done s"
  by (simp add: handle_ui_event_from_server_def)

lemma mismatch_restart:
  "get_or d ''viewer_id'' VNone \<noteq> VStr (viewer_id s) \<Longrightarrow> handle_restart_script s (VDict d) = Done s"
  by (simp add: handle_restart_script_def)

lemma mismatch_update_object:
  "get_or d ''viewer_id'' VNone \<noteq> VStr (viewer_id s) \<Longrightarrow> handle_update_object E s (VDict d) = Done s"
  by (simp add: handle_update_object_def)

lemma mismatch_console_command:
  "get_or d ''viewer_id'' VNone \<noteq> VStr (viewer_id s) \<Longrightarrow> handle_console_command E s (VDict d) = Done s"
  by (simp add: handle_console_command_def)

lemma mismatch_console_complete:
  "get_or d ''viewer_id'' VNone \<noteq> VStr (viewer_id s) \<Longrightarrow> handle_console_complete E s (VDict d) = Done s"
  by (simp add: handle_console_complete_def)

lemma mismatch_state_request:
  "get_or d ''viewer_id'' VNone \<noteq> VStr (viewer_id s) \<Longrightarrow> handle_state_request s (VDict d) = Done s"
  by (simp add: handle_state_request_def)

lemma mismatch_events:
  "get_or d ''viewer_id'' VNone \<noteq> VStr (viewer_id s) \<Longrightarrow>
   handle_events E field name convert s (VDict d) = Done s"
  by (simp add: handle_events_def)

text \<open>
  Every registered handler that reads the \<open>viewer_id\<close> field starts with the guard
  \<open>if data.get('viewer_id') != self.viewer_id: return\<close>: \<open>update_object\<close>,
  \<open>console_command\<close>, \<open>console_complete\<close>, \<open>viewer_heartbeat\<close>, the state-request
  replies, \<open>events.*\<close>, \<open>ui_event_response\<close> and \<open>restart_script\<close> drop a message whose
  \<open>viewer_id\<close> is not the session's. The session and the list of outbound calls stay as
  they are.
\<close>

lemma guarded_handlers_drop_foreign_messages:
  assumes "get_or d ''viewer_id'' VNone \<noteq> VStr (viewer_id s)"
    and "event \<noteq> ''request_state_from_client''"
  shows "on_event E event s (VDict d) = Done s"
  using assms
  by (simp add: on_event_def mismatch_heartbeat mismatch_ui_event mismatch_restart
        mismatch_update_object mismatch_console_command mismatch_console_complete
        mismatch_state_request mismatch_events handle_events_camera_def
        handle_events_inspect_def handle_events_select_object_def handle_events_gizmo_def)

lemma guarded_handlers_drop_foreign_messages_example:
  "on_event demo_env ''update_object'' demo_viewer
      (VDict [(''viewer_id'', VStr ''viewer_2''), (''id'', VStr ''bunny''),
              (''updates'', VDict [(''visible'', VBool False)])]) = Done demo_viewer
   \<and> on_event demo_env ''console_command'' demo_viewer
      (VDict [(''viewer_id'', VStr ''viewer_2''), (''command'', VStr ''x = 5'')]) = Done demo_viewer
   \<and> on_event demo_env ''camera_info'' demo_viewer
      (VDict [(''event'', VStr ''request_camera_info''), (''data'', VInt 1)]) = Done demo_viewer"
  using guarded_handlers_drop_foreign_messages
      [where E = demo_env and s = demo_viewer and event = "''update_object''"
         and d = "[(''viewer_id'', VStr ''viewer_2''), (''id'', VStr ''bunny''),
              (''updates'', VDict [(''visible'', VBool False)])]"]
    guarded_handlers_drop_foreign_messages
      [where E = demo_env and s = demo_viewer and event = "''console_command''"
         and d = "[(''viewer_id'', VStr ''viewer_2''), (''command'', VStr ''x = 5'')]"]
    guarded_handlers_drop_foreign_messages
      [where E = demo_env and s = demo_viewer and event = "''camera_info''"
         and d = "[(''event'', VStr ''request_camera_info''), (''data'', VInt 1)]"]
  by (simp add: get_or_def demo_viewer_simps)

text \<open>
  C1. A message whose \<open>viewer_id\<close> is not the session's is to be a no-op for every handler,
  the full-state resync included. \<open>handle_request_state\<close> is the one registered handler
  without the guard: it takes its message as \<open>data=None\<close> and never reads it. On the
  session \<open>viewer_1\<close> with one mesh and one slider, a \<open>request_state_from_client\<close> message
  that carries \<open>viewer_id = viewer_2\<close> is answered with \<open>console_meta\<close>, \<open>set_camera\<close> and
  both add messages: the handler is not a no-op there.
\<close>

theorem resync_answers_foreign_viewer_id:
  "get_or [(''viewer_id'', VStr ''viewer_2'')] ''viewer_id'' VNone \<noteq> VStr (viewer_id demo_viewer)
   \<and> on_event demo_env ''request_state_from_client'' demo_viewer
        (VDict [(''viewer_id'', VStr ''viewer_2'')])
      = Done (demo_viewer\<lparr>effects := effects demo_viewer @
               [Emit ''console_meta'' (VDict [(''enabled'', VBool True)]),
                EmitWithFallback ''set_camera'' (VDict [(''camera'', DEFAULT_CAMERA_STATE)]),
                EmitAddGeometry demo_mesh,
                EmitAddControl demo_slider]\<rparr>)
   \<and> on_event demo_env ''request_state_from_client'' demo_viewer
        (VDict [(''viewer_id'', VStr ''viewer_2'')]) \<noteq> Done demo_viewer"
proof -
  have 1: "on_event demo_env ''request_state_from_client'' demo_viewer
        (VDict [(''viewer_id'', VStr ''viewer_2'')])
      = Done (demo_viewer\<lparr>effects := effects demo_viewer @
               [Emit ''console_meta'' (VDict [(''enabled'', VBool True)]),
                EmitWithFallback ''set_camera'' (VDict [(''camera'', DEFAULT_CAMERA_STATE)]),
                EmitAddGeometry demo_mesh,
                EmitAddControl demo_slider]\<rparr>)"
    by (simp add: on_event_def handle_request_state_def Let_def do_effect_def demo_viewer_simps
          hasattr_def demo_env_def)
       (simp add: demo_mesh_def demo_slider_def)
  have 2: "effects (demo_viewer\<lparr>effects := effects demo_viewer @
               [Emit ''console_meta'' (VDict [(''enabled'', VBool True)]),
                EmitWithFallback ''set_camera'' (VDict [(''camera'', DEFAULT_CAMERA_STATE)]),
                EmitAddGeometry demo_mesh,
                EmitAddControl demo_slider]\<rparr>) \<noteq> effects demo_viewer"
    by simp
  have 3: "on_event demo_env ''request_state_from_client'' demo_viewer
        (VDict [(''viewer_id'', VStr ''viewer_2'')]) \<noteq> Done demo_viewer"
  proof
    assume "on_event demo_env ''request_state_from_client'' demo_viewer
        (VDict [(''viewer_id'', VStr ''viewer_2'')]) = Done demo_viewer"
    with 1 have "demo_viewer\<lparr>effects := effects demo_viewer @
               [Emit ''console_meta'' (VDict [(''enabled'', VBool True)]),
                EmitWithFallback ''set_camera'' (VDict [(''camera'', DEFAULT_CAMERA_STATE)]),
                EmitAddGeometry demo_mesh,
                EmitAddControl demo_slider]\<rparr> = demo_viewer" by simp
    then have "effects (demo_viewer\<lparr>effects := effects demo_viewer @
               [Emit ''console_meta'' (VDict [(''enabled'', VBool True)]),
                EmitWithFallback ''set_camera'' (VDict [(''camera'', DEFAULT_CAMERA_STATE)]),
                EmitAddGeometry demo_mesh,
                EmitAddControl demo_slider]\<rparr>) = effects demo_viewer" by (rule arg_cong)
    with 2 show False by blast
  qed
  show ?thesis using 1 3 by (simp add: get_or_def demo_viewer_simps)
qed

subsection \<open>Full-state resync\<close>

lemma dict_set_fresh: "k \<notin> fst ` set d \<Longrightarrow> dict_set k v d = d @ [(k, v)]"
  by (induction d) auto

lemma added_objects_append: "added_objects (xs @ ys) = added_objects xs @ added_objects ys"
  by (induction xs rule: added_objects.induct) simp_all

lemma added_controls_append: "added_controls (xs @ ys) = added_controls xs @ added_controls ys"
  by (induction xs rule: added_controls.induct) simp_all

lemma console_texts_append: "console_texts (xs @ ys) = console_texts xs @ console_texts ys"
  by (induction xs rule: console_texts.induct) simp_all

lemma run_calls_snoc: "run_calls E s (cs @ [c]) = run_call E (run_calls E s cs) c"
  by (simp add: run_calls_def)

lemma run_calls_registry:
  assumes "distinct (map ent_name (added_objects calls))"
    and "distinct (map ent_name (added_controls calls))"
    and "objects s = []" and "ui_controls s = []" and "print_buffer s = []"
  shows "objects (run_calls E s calls) = map (\<lambda>e. (ent_name e, e)) (added_objects calls)
       \<and> ui_controls (run_calls E s calls) = map (\<lambda>e. (ent_name e, e)) (added_controls calls)
       \<and> print_buffer (run_calls E s calls) = console_texts calls
       \<and> interactive_console_enabled (run_calls E s calls) = interactive_console_enabled s"
  using assms(1,2)
proof (induction calls rule: rev_induct)
  case Nil
  then show ?case using assms(3-5) by (simp add: run_calls_def)
next
  case (snoc c cs)
  have d1: "distinct (map ent_name (added_objects cs))" 
    and d2: "distinct (map ent_name (added_controls cs))"
    using snoc.prems by (simp_all add: added_objects_append added_controls_append)
  note IH = snoc.IH [OF d1 d2]
  show ?case
  proof (cases c)
    case (AddObject obj)
    then have "ent_name obj \<notin> fst ` set (objects (run_calls E s cs))"
      using snoc.prems(1) IH by (auto simp: added_objects_append image_iff)
    then show ?thesis using IH AddObject
      by (simp add: run_calls_snoc add_object_def do_effect_def dict_set_fresh
            added_objects_append added_controls_append console_texts_append)
  next
    case (AddControl ctl)
    then have "ent_name ctl \<notin> fst ` set (ui_controls (run_calls E s cs))"
      using snoc.prems(2) IH by (auto simp: added_controls_append image_iff)
    then show ?thesis using IH AddControl
      by (simp add: run_calls_snoc add_control_def do_effect_def dict_set_fresh
            added_objects_append added_controls_append console_texts_append)
  next
    case (ConsoleText t col)
    then show ?thesis using IH
      by (simp add: run_calls_snoc emit_console_text_def do_effect_def
            added_objects_append added_controls_append console_texts_append)
  qed
qed

lemma handle_request_state_effects:
  "handle_request_state E s data =
     Done (s\<lparr>effects := effects s @
            resync_messages E (interactive_console_enabled s)
              (filter (\<lambda>obj. hasattr obj ''to_dict'') (map snd (objects s)))
              (filter (\<lambda>c. hasattr c ''to_dict'') (map snd (ui_controls s)))
              (print_buffer s)\<rparr>)"
  by (simp add: handle_request_state_def Let_def do_effect_def resync_messages_def
        DEFAULT_CAMERA_STATE_def)


text \<open>
  C4. After any history of add calls with distinct names and any console output,
  handling a full-state resync request makes exactly these outbound calls, in this
  order: the console-enabled flag; \<open>set_camera\<close> with the default camera (projection mode
  \<open>perspective\<close>, fov 50, near 0.1, far 1000, passed through \<open>as_list\<close>); one
  add-geometry call per registered object in registration order; one add-control call
  per registered control in registration order; the whole console buffer as segments
  (no call when the buffer is empty). The registered instances are those of the
  viewer's classes, which carry \<open>to_dict\<close>.
\<close>

theorem resync_emits_state_in_registration_order:
  assumes "distinct (map ent_name (added_objects calls))"
    and "distinct (map ent_name (added_controls calls))"
    and "list_all (\<lambda>e. hasattr e ''to_dict'') (added_objects calls @ added_controls calls)"
    and "s = run_calls E (init_viewer vid enabled st) calls"
  shows "handle_request_state E s data =
     Done (s\<lparr>effects := effects s @
            resync_messages E enabled (added_objects calls) (added_controls calls)
              (console_texts calls)\<rparr>)"
proof -
  have reg: "objects s = map (\<lambda>e. (ent_name e, e)) (added_objects calls)
       \<and> ui_controls s = map (\<lambda>e. (ent_name e, e)) (added_controls calls)
       \<and> print_buffer s = console_texts calls
       \<and> interactive_console_enabled s = enabled"
    unfolding assms(4)
    using run_calls_registry [OF assms(1,2), of "init_viewer vid enabled st" E]
    by (simp add: init_viewer_def)
  have f1: "filter (\<lambda>obj. hasattr obj ''to_dict'') (added_objects calls) = added_objects calls"
    using assms(3) by (simp add: list_all_iff)
  have f2: "filter (\<lambda>c. hasattr c ''to_dict'') (added_controls calls) = added_controls calls"
    using assms(3) by (simp add: list_all_iff)
  show ?thesis
    by (simp add: handle_request_state_effects reg comp_def f1 f2)
qed



theorem resync_emits_state_in_registration_order_witness:
  "handle_request_state demo_env
      (run_calls demo_env (init_viewer ''viewer_1'' True (\<lambda>r. [])) demo_calls) VNone =
   Done ((run_calls demo_env (init_viewer ''viewer_1'' True (\<lambda>r. [])) demo_calls)
        \<lparr>effects := effects (run_calls demo_env (init_viewer ''viewer_1'' True (\<lambda>r. [])) demo_calls) @
           [Emit ''console_meta'' (VDict [(''enabled'', VBool True)]),
            EmitWithFallback ''set_camera''
              (VDict [(''camera'', VDict [(''projection_mode'', VStr ''perspective''),
                                        (''fov'', VInt 50),
                                        (''near'', VFloat 1 (- 1)),
                                        (''far'', VInt 1000)])]),
            EmitAddGeometry demo_mesh,
            EmitAddControl demo_slider,
            EmitConsoleOutput [(''hello world'', None)]]\<rparr>)"
  using resync_emits_state_in_registration_order
     [where calls = demo_calls and E = demo_env and vid = "''viewer_1''" and enabled = True
        and st = "\<lambda>r. []" and data = VNone, OF _ _ _ refl]
  by (simp add: demo_calls_def resync_messages_def hasattr_def)
     (simp add: demo_env_def demo_mesh_def demo_slider_def)

subsection \<open>The disabled console\<close>









subsection \<open>Unknown request kinds\<close>

text \<open>
  C9, as the code has it. A state-request payload with the session's \<open>viewer_id\<close>
  whose event name, with every occurrence of \<open>request_\<close> deleted (\<open>str.replace\<close>), is
  none of \<open>camera_info\<close>, \<open>selected_object\<close>, \<open>screenshot\<close> makes both
  \<open>emit_state_request\<close> and \<open>handle_state_request\<close> raise a ValueError, and the session
  (every result slot and completion signal included) is as before the call.
\<close>

theorem unknown_request_kind_raises:
  assumes "get_or d ''viewer_id'' VNone = VStr (viewer_id s)"
    and "get_or d ''event'' VNone = VStr event"
    and "replace_by_empty ''request_'' event \<notin> set request_events"
  shows "emit_state_request E s (VDict d)
           = Raised (ValueError (''Unknown state request event: '' @ event)) s
       \<and> handle_state_request s (VDict d)
           = Raised (ValueError (''Unknown state request event: '' @ event)) s"
  using assms
  by (simp add: emit_state_request_def handle_state_request_def msg_fields_def Let_def)


theorem unknown_request_kind_raises_witness:
  "emit_state_request demo_env demo_viewer
      (VDict [(''viewer_id'', VStr ''viewer_1''), (''event'', VStr ''request_depth_map'')])
     = Raised (ValueError ''Unknown state request event: request_depth_map'') demo_viewer
   \<and> handle_state_request demo_viewer
      (VDict [(''viewer_id'', VStr ''viewer_1''), (''event'', VStr ''request_depth_map'')])
     = Raised (ValueError ''Unknown state request event: request_depth_map'') demo_viewer"
proof -
  have r: "replace_by_empty ''request_'' ''request_depth_map'' = ''depth_map''"
    by (simp add: replace_by_empty.simps startswith_def)
  show ?thesis
    using unknown_request_kind_raises
      [where E = demo_env and s = demo_viewer and event = "''request_depth_map''"
         and d = "[(''viewer_id'', VStr ''viewer_1''), (''event'', VStr ''request_depth_map'')]"]
    by (simp add: r get_or_def demo_viewer_simps request_events_def)
qed


text \<open>
  Deleting only the prefix is not what the code does: \<open>camera_request_info\<close> has no
  \<open>request_\<close> prefix and is no request kind, yet it is accepted as \<open>camera_info\<close>, by
  both functions, and the slot of \<open>camera_info\<close> is written.
\<close>

theorem embedded_request_marker_counterexample:
  "without_request_prefix ''camera_request_info'' \<notin> set request_events
   \<and> handle_state_request demo_viewer
        (VDict [(''viewer_id'', VStr ''viewer_1''), (''event'', VStr ''camera_request_info''),
                (''data'', VInt 7)])
      = Done (demo_viewer\<lparr>request_data := (request_data demo_viewer)(''camera_info'' := VInt 7),
                          request_threads := (request_threads demo_viewer)(''camera_info'' := True)\<rparr>)
   \<and> emit_state_request demo_env demo_viewer
        (VDict [(''viewer_id'', VStr ''viewer_1''), (''event'', VStr ''camera_request_info'')])
      = Done (demo_viewer\<lparr>request_threads := (request_threads demo_viewer)(''camera_info'' := False),
                          request_data := (request_data demo_viewer)(''camera_info'' := VNone),
                          effects := effects demo_viewer @
                            [Emit ''relay_state_request''
                               (VDict [(''event'', VStr ''camera_request_info''),
                                       (''viewer_id'', VStr ''viewer_1''),
                                       (''data'', VDict [])])]\<rparr>)"
proof -
  have r: "replace_by_empty ''request_'' ''camera_request_info'' = ''camera_info''"
    by (simp add: replace_by_empty.simps startswith_def)
  show ?thesis
    by (simp add: without_request_prefix_def startswith_def request_events_def
          handle_state_request_def emit_state_request_def msg_fields_def get_or_def r Let_def
          demo_viewer_simps do_effect_def)
       (simp add: demo_env_def)
qed

subsection \<open>Pull calls and their slots\<close>

lemma session_simple_handlers:
  "viewer_id (session (handle_heartbeat s data)) = viewer_id s"
  "slot (session (handle_heartbeat s data)) k = slot s k"
  "viewer_id (session (handle_restart_script s data)) = viewer_id s"
  "slot (session (handle_restart_script s data)) k = slot s k"
  "viewer_id (session (handle_events E f n c s data)) = viewer_id s"
  "slot (session (handle_events E f n c s data)) k = slot s k"
  "viewer_id (session (handle_request_state E s data)) = viewer_id s"
  "slot (session (handle_request_state E s data)) k = slot s k"
  by (cases data; simp add: handle_heartbeat_def handle_restart_script_def handle_events_def
        handle_request_state_def slot_def do_effect_def Let_def)+

lemma session_ui_event:
  "viewer_id (session (handle_ui_event_from_server E s data)) = viewer_id s"
  "slot (session (handle_ui_event_from_server E s data)) k = slot s k"
  by (cases data;
      simp add: handle_ui_event_from_server_def handle_ui_event_def slot_def do_effect_def Let_def
          split: sum.splits option.splits)+

lemma session_update_object:
  "viewer_id (session (handle_update_object E s data)) = viewer_id s"
  "slot (session (handle_update_object E s data)) k = slot s k"
  by (cases data;
      simp add: handle_update_object_def slot_def do_effect_def Let_def
          split: sum.splits option.splits pyval.splits prod.splits)+

lemma session_state_request_id:
  "viewer_id (session (handle_state_request s data)) = viewer_id s"
  by (cases data; simp add: handle_state_request_def Let_def split: pyval.splits)

lemma session_state_request_other:
  assumes "\<not> answers kind s (ev, data)" "ev \<in> set request_events"
  shows "slot (session (handle_state_request s data)) kind = slot s kind"
  using assms
  by (cases data; auto simp add: handle_state_request_def Let_def answers_def slot_def msg_fields_def
        split: pyval.splits)

lemma session_state_request_answer:
  assumes "answers kind s (ev, VDict d)" "kind \<in> set request_events"
  shows "slot (session (handle_state_request s (VDict d))) kind = (True, get_or d ''data'' VNone)"
  using assms
  by (auto simp add: handle_state_request_def Let_def answers_def slot_def msg_fields_def
        split: pyval.splits)

lemma on_event_viewer_id:
  "\<not> console_event m \<Longrightarrow> viewer_id (session (on_event E (fst m) s (snd m))) = viewer_id s"
  by (simp add: on_event_def console_event_def session_simple_handlers session_ui_event
        session_update_object session_state_request_id handle_events_camera_def
        handle_events_inspect_def handle_events_select_object_def handle_events_gizmo_def)

lemma on_event_quiet:
  "quiet kind s m \<Longrightarrow> slot (session (on_event E (fst m) s (snd m))) kind = slot s kind"
  using session_state_request_other [of kind s "fst m" "snd m"]
  by (simp add: on_event_def quiet_def console_event_def session_simple_handlers session_ui_event
        session_update_object handle_events_camera_def
        handle_events_inspect_def handle_events_select_object_def handle_events_gizmo_def)

lemma on_event_answer:
  assumes "answers kind s (ev, VDict d)" "kind \<in> set request_events"
  shows "slot (session (on_event E ev s (VDict d))) kind = (True, get_or d ''data'' VNone)"
proof -
  have ev: "ev \<in> set request_events" using assms(1) by (simp add: answers_def)
  then have "on_event E ev s (VDict d) = handle_state_request s (VDict d)"
    by (auto simp: on_event_def request_events_def)
  then show ?thesis using session_state_request_answer [OF assms] by simp
qed

lemma quiet_cong: "viewer_id s' = viewer_id s \<Longrightarrow> quiet kind s' = quiet kind s"
  by (rule ext) (simp add: quiet_def answers_def split: pyval.splits)

lemma deliver_append: "deliver E s (xs @ ys) = deliver E (deliver E s xs) ys"
  by (induction xs arbitrary: s) simp_all

lemma deliver_viewer_id:
  "list_all (\<lambda>m. \<not> console_event m) ms \<Longrightarrow> viewer_id (deliver E s ms) = viewer_id s"
  by (induction ms arbitrary: s) (simp_all add: on_event_viewer_id)

lemma deliver_quiet:
  "list_all (quiet kind s) ms \<Longrightarrow> slot (deliver E s ms) kind = slot s kind"
proof (induction ms arbitrary: s)
  case Nil
  then show ?case by simp
next
  case (Cons m ms)
  let ?s1 = "session (on_event E (fst m) s (snd m))"
  have q: "quiet kind s m" using Cons.prems by simp
  then have id: "viewer_id ?s1 = viewer_id s" by (simp add: on_event_viewer_id quiet_def)
  have "list_all (quiet kind ?s1) ms" using Cons.prems quiet_cong [OF id] by simp
  then have "slot (deliver E ?s1 ms) kind = slot ?s1 kind" by (rule Cons.IH)
  then show ?case using on_event_quiet [OF q] by simp
qed

text \<open>The wait of a pull call whose reply arrives: anything but console code first, then the
  reply, then messages that do not touch the slot.\<close>

lemma deliver_answered:
  assumes pre: "list_all (\<lambda>m. \<not> console_event m) pre"
    and ans: "answers kind s (ev, VDict d)" and kind: "kind \<in> set request_events"
    and post: "list_all (quiet kind s) post"
  shows "slot (deliver E s (pre @ (ev, VDict d) # post)) kind = (True, get_or d ''data'' VNone)"
proof -
  let ?s1 = "deliver E s pre"
  let ?s2 = "session (on_event E ev ?s1 (VDict d))"
  have id1: "viewer_id ?s1 = viewer_id s" using pre by (rule deliver_viewer_id)
  have ans1: "answers kind ?s1 (ev, VDict d)" using ans id1 by (simp add: answers_def)
  have s2: "slot ?s2 kind = (True, get_or d ''data'' VNone)"
    using ans1 kind by (rule on_event_answer)
  have nc: "\<not> console_event (ev, VDict d)"
    using ans by (auto simp: answers_def console_event_def request_events_def)
  have id2: "viewer_id ?s2 = viewer_id s"
    using on_event_viewer_id [OF nc, of E ?s1] id1 by simp
  have "list_all (quiet kind ?s2) post" using post quiet_cong [OF id2] by simp
  then have "slot (deliver E ?s2 post) kind = slot ?s2 kind" by (rule deliver_quiet)
  then show ?thesis using s2 by (simp add: deliver_append)
qed


lemma replace_own_requests:
  "replace_by_empty ''request_'' ''request_camera_info'' = ''camera_info''"
  "replace_by_empty ''request_'' ''request_selected_object'' = ''selected_object''"
  "replace_by_empty ''request_'' ''request_screenshot'' = ''screenshot''"
  by (simp_all add: replace_by_empty.simps startswith_def)

lemma emit_own_request:
  assumes "replace_by_empty ''request_'' event = kind" "kind \<in> set request_events"
    "get_or d ''viewer_id'' VNone = VStr (viewer_id s)" "get_or d ''event'' VNone = VStr event"
  shows "\<exists>s1. emit_state_request E s (VDict d) = Done s1 \<and> viewer_id s1 = viewer_id s \<and>
           slot s1 kind = (False, VNone)"
  using assms
  by (simp add: emit_state_request_def msg_fields_def get_or_def Let_def do_effect_def slot_def)


text \<open>
  C2, as the code has it. A pull call (\<open>camera\<close>, \<open>selected_object\<close>, \<open>screenshot\<close>)
  first issues \<open>emit_state_request\<close> for its kind and then waits. It always returns: when
  no reply for the kind arrives during the wait (other messages may), it returns None and
  the slot is still cleared; when a reply arrives (after any messages but console code,
  and followed by messages that are no reply for the kind), it returns the reply's
  payload (\<open>camera\<close> through \<open>as_array\<close>, \<open>screenshot\<close> what decoding it gives) and the
  slot stays fulfilled: the signal is set and the payload is kept. Only the next
  \<open>emit_state_request\<close> for the kind clears them.
\<close>

theorem pull_call_returns_reply_or_none:
  assumes quiet: "list_all (quiet kind s) unrelated"
    and pre: "list_all (\<lambda>m. \<not> console_event m) before"
    and ans: "answers kind s (ev, VDict d)"
    and post: "list_all (quiet kind s) after"
    and payload: "payload = get_or d ''data'' VNone"
    and inbound: "inbound = before @ (ev, VDict d) # after"
  shows "(kind = ''camera_info'' \<longrightarrow>
            (\<exists>s2. camera E s unrelated = Returned VNone s2 \<and> slot s2 kind = (False, VNone)) \<and>
            (\<exists>s2. camera E s inbound = Returned (as_array E payload) s2 \<and>
                   slot s2 kind = (True, payload)))
       \<and> (kind = ''selected_object'' \<longrightarrow>
            (\<exists>s2. selected_object E s unrelated = Returned VNone s2 \<and> slot s2 kind = (False, VNone)) \<and>
            (\<exists>s2. selected_object E s inbound = Returned payload s2 \<and>
                   slot s2 kind = (True, payload)))
       \<and> (kind = ''screenshot'' \<longrightarrow>
            (\<exists>s2. screenshot E s filename bg_color resolution unrelated = Returned None s2 \<and>
                   slot s2 kind = (False, VNone)) \<and>
            (\<exists>s2. screenshot E s filename bg_color resolution inbound
                     = decode_screenshot E filename payload s2 \<and>
                   slot s2 kind = (True, payload)))"
proof -
  have wait:
    "\<And>s1. viewer_id s1 = viewer_id s \<Longrightarrow> slot s1 kind = (False, VNone) \<Longrightarrow>
        kind \<in> set request_events \<Longrightarrow>
        slot (deliver E s1 unrelated) kind = (False, VNone) \<and>
        slot (deliver E s1 inbound) kind = (True, payload)"
  proof -
    fix s1 assume id: "viewer_id s1 = viewer_id s" and idle: "slot s1 kind = (False, VNone)"
      and k: "kind \<in> set request_events"
    have q: "quiet kind s1 = quiet kind s" using id by (rule quiet_cong)
    have a: "answers kind s1 (ev, VDict d)" using ans id by (simp add: answers_def)
    have 1: "slot (deliver E s1 unrelated) kind = (False, VNone)"
      using deliver_quiet [of kind s1 unrelated E] quiet q idle by simp
    have 2: "slot (deliver E s1 inbound) kind = (True, payload)"
      unfolding inbound payload
      using pre a k post q by (intro deliver_answered) simp_all
    show "slot (deliver E s1 unrelated) kind = (False, VNone) \<and>
        slot (deliver E s1 inbound) kind = (True, payload)" using 1 2 by simp
  qed
  have cam: "kind = ''camera_info'' \<longrightarrow>
            (\<exists>s2. camera E s unrelated = Returned VNone s2 \<and> slot s2 kind = (False, VNone)) \<and>
            (\<exists>s2. camera E s inbound = Returned (as_array E payload) s2 \<and>
                   slot s2 kind = (True, payload))"
  proof
    assume k: "kind = ''camera_info''"
    obtain s1 where e: "emit_state_request E s
        (VDict [(''event'', VStr ''request_camera_info''), (''viewer_id'', VStr (viewer_id s))]) = Done s1"
      and s1: "viewer_id s1 = viewer_id s" "slot s1 kind = (False, VNone)"
      using emit_own_request [of "''request_camera_info''" kind
          "[(''event'', VStr ''request_camera_info''), (''viewer_id'', VStr (viewer_id s))]" s E] k
      by (auto simp: replace_own_requests request_events_def get_or_def)
    have w: "slot (deliver E s1 unrelated) kind = (False, VNone) \<and>
        slot (deliver E s1 inbound) kind = (True, payload)"
      using wait [OF s1] k by (simp add: request_events_def)
    show "(\<exists>s2. camera E s unrelated = Returned VNone s2 \<and> slot s2 kind = (False, VNone)) \<and>
          (\<exists>s2. camera E s inbound = Returned (as_array E payload) s2 \<and>
                   slot s2 kind = (True, payload))"
      using w e k by (simp add: camera_def Let_def slot_def)
  qed
  have sel: "kind = ''selected_object'' \<longrightarrow>
            (\<exists>s2. selected_object E s unrelated = Returned VNone s2 \<and> slot s2 kind = (False, VNone)) \<and>
            (\<exists>s2. selected_object E s inbound = Returned payload s2 \<and>
                   slot s2 kind = (True, payload))"
  proof
    assume k: "kind = ''selected_object''"
    obtain s1 where e: "emit_state_request E s
        (VDict [(''event'', VStr ''request_selected_object''), (''viewer_id'', VStr (viewer_id s))]) = Done s1"
      and s1: "viewer_id s1 = viewer_id s" "slot s1 kind = (False, VNone)"
      using emit_own_request [of "''request_selected_object''" kind
          "[(''event'', VStr ''request_selected_object''), (''viewer_id'', VStr (viewer_id s))]" s E] k
      by (auto simp: replace_own_requests request_events_def get_or_def)
    have w: "slot (deliver E s1 unrelated) kind = (False, VNone) \<and>
        slot (deliver E s1 inbound) kind = (True, payload)"
      using wait [OF s1] k by (simp add: request_events_def)
    show "(\<exists>s2. selected_object E s unrelated = Returned VNone s2 \<and> slot s2 kind = (False, VNone)) \<and>
          (\<exists>s2. selected_object E s inbound = Returned payload s2 \<and>
                   slot s2 kind = (True, payload))"
      using w e k by (simp add: selected_object_def Let_def slot_def)
  qed
  have shot: "kind = ''screenshot'' \<longrightarrow>
            (\<exists>s2. screenshot E s filename bg_color resolution unrelated = Returned None s2 \<and>
                   slot s2 kind = (False, VNone)) \<and>
            (\<exists>s2. screenshot E s filename bg_color resolution inbound
                     = decode_screenshot E filename payload s2 \<and>
                   slot s2 kind = (True, payload))"
  proof
    assume k: "kind = ''screenshot''"
    let ?data = "VDict ([(''viewer_id'', VStr (viewer_id s))]
                   @ (case bg_color of None \<Rightarrow> [] | Some c \<Rightarrow> [(''bg_color'', VList c)])
                   @ (case resolution of None \<Rightarrow> []
                      | Some wh \<Rightarrow> [(''width'', fst wh), (''height'', snd wh)]))"
    obtain s1 where e: "emit_state_request E s
        (VDict [(''event'', VStr ''request_screenshot''), (''viewer_id'', VStr (viewer_id s)),
                (''data'', ?data)]) = Done s1"
      and s1: "viewer_id s1 = viewer_id s" "slot s1 kind = (False, VNone)"
      using emit_own_request [of "''request_screenshot''" kind
          "[(''event'', VStr ''request_screenshot''), (''viewer_id'', VStr (viewer_id s)),
                (''data'', ?data)]" s E] k
      by (auto simp: replace_own_requests request_events_def get_or_def)
    have w: "slot (deliver E s1 unrelated) kind = (False, VNone) \<and>
        slot (deliver E s1 inbound) kind = (True, payload)"
      using wait [OF s1] k by (simp add: request_events_def)
    show "(\<exists>s2. screenshot E s filename bg_color resolution unrelated = Returned None s2 \<and>
                   slot s2 kind = (False, VNone)) \<and>
            (\<exists>s2. screenshot E s filename bg_color resolution inbound
                     = decode_screenshot E filename payload s2 \<and>
                   slot s2 kind = (True, payload))"
      using w e k
      by (simp add: screenshot_def Let_def slot_def)
         (rule exI [of _ "deliver E s1 inbound"], simp)
  qed
  show ?thesis using cam sel shot by blast
qed



theorem pull_call_returns_reply_or_none_witness:
  "(\<exists>s2. camera demo_env demo_viewer [demo_reply ''selected_object'' (VStr ''bunny''), demo_heartbeat]
            = Returned VNone s2 \<and> slot s2 ''camera_info'' = (False, VNone))
   \<and> (\<exists>s2. camera demo_env demo_viewer
              [demo_heartbeat, demo_reply ''camera_info'' (VDict [(''fov'', VInt 50)]), demo_heartbeat]
            = Returned (VDict [(''fov'', VInt 50)]) s2 \<and>
            slot s2 ''camera_info'' = (True, VDict [(''fov'', VInt 50)]))
   \<and> (\<exists>s2. selected_object demo_env demo_viewer [demo_reply ''screenshot'' (VStr ''AAAA''), demo_heartbeat]
            = Returned VNone s2 \<and> slot s2 ''selected_object'' = (False, VNone))
   \<and> (\<exists>s2. selected_object demo_env demo_viewer
              [demo_heartbeat, demo_reply ''selected_object'' (VStr ''bunny''), demo_heartbeat]
            = Returned (VStr ''bunny'') s2 \<and> slot s2 ''selected_object'' = (True, VStr ''bunny''))
   \<and> (\<exists>s2. screenshot demo_env demo_viewer (Some ''shot.png'') None None
              [demo_reply ''camera_info'' VNone, demo_heartbeat]
            = Returned None s2 \<and> slot s2 ''screenshot'' = (False, VNone))
   \<and> (\<exists>s2. screenshot demo_env demo_viewer (Some ''shot.png'') None None
              [demo_heartbeat, demo_reply ''screenshot'' (VStr ''AAAA''), demo_heartbeat]
            = decode_screenshot demo_env (Some ''shot.png'') (VStr ''AAAA'') s2 \<and>
            slot s2 ''screenshot'' = (True, VStr ''AAAA''))"
proof -
  note a = pull_call_returns_reply_or_none
      [where E = demo_env and s = demo_viewer and kind = "''camera_info''"
         and unrelated = "[demo_reply ''selected_object'' (VStr ''bunny''), demo_heartbeat]"
         and before = "[demo_heartbeat]" and ev = "''camera_info''"
         and d = "[(''viewer_id'', VStr ''viewer_1''), (''event'', VStr ''request_camera_info''),
                   (''data'', VDict [(''fov'', VInt 50)])]"
         and after = "[demo_heartbeat]", OF _ _ _ _ refl refl]
  note b = pull_call_returns_reply_or_none
      [where E = demo_env and s = demo_viewer and kind = "''selected_object''"
         and unrelated = "[demo_reply ''screenshot'' (VStr ''AAAA''), demo_heartbeat]"
         and before = "[demo_heartbeat]" and ev = "''selected_object''"
         and d = "[(''viewer_id'', VStr ''viewer_1''), (''event'', VStr ''request_selected_object''),
                   (''data'', VStr ''bunny'')]"
         and after = "[demo_heartbeat]", OF _ _ _ _ refl refl]
  note c = pull_call_returns_reply_or_none
      [where E = demo_env and s = demo_viewer and kind = "''screenshot''"
         and unrelated = "[demo_reply ''camera_info'' VNone, demo_heartbeat]"
         and before = "[demo_heartbeat]" and ev = "''screenshot''"
         and d = "[(''viewer_id'', VStr ''viewer_1''), (''event'', VStr ''request_screenshot''),
                   (''data'', VStr ''AAAA'')]"
         and after = "[demo_heartbeat]" and filename = "Some ''shot.png''"
         and bg_color = None and resolution = None, OF _ _ _ _ refl refl]
  have ar: "as_array demo_env = (\<lambda>v. v)" by (simp add: demo_env_def)
  note demo_facts = answers_def quiet_def console_event_def demo_reply_def demo_heartbeat_def
        request_events_def get_or_def demo_viewer_simps replace_own_requests
  have 1: "(\<exists>s2. camera demo_env demo_viewer [demo_reply ''selected_object'' (VStr ''bunny''), demo_heartbeat]
            = Returned VNone s2 \<and> slot s2 ''camera_info'' = (False, VNone))
     \<and> (\<exists>s2. camera demo_env demo_viewer
              [demo_heartbeat, demo_reply ''camera_info'' (VDict [(''fov'', VInt 50)]), demo_heartbeat]
            = Returned (VDict [(''fov'', VInt 50)]) s2 \<and>
            slot s2 ''camera_info'' = (True, VDict [(''fov'', VInt 50)]))"
    using a
    by (simp add: ar demo_facts del: deliver.simps)
  have 2: "(\<exists>s2. selected_object demo_env demo_viewer [demo_reply ''screenshot'' (VStr ''AAAA''), demo_heartbeat]
            = Returned VNone s2 \<and> slot s2 ''selected_object'' = (False, VNone))
     \<and> (\<exists>s2. selected_object demo_env demo_viewer
              [demo_heartbeat, demo_reply ''selected_object'' (VStr ''bunny''), demo_heartbeat]
            = Returned (VStr ''bunny'') s2 \<and> slot s2 ''selected_object'' = (True, VStr ''bunny''))"
    using b
    by (simp add: demo_facts del: deliver.simps)
  have 3: "(\<exists>s2. screenshot demo_env demo_viewer (Some ''shot.png'') None None
              [demo_reply ''camera_info'' VNone, demo_heartbeat]
            = Returned None s2 \<and> slot s2 ''screenshot'' = (False, VNone))
     \<and> (\<exists>s2. screenshot demo_env demo_viewer (Some ''shot.png'') None None
              [demo_heartbeat, demo_reply ''screenshot'' (VStr ''AAAA''), demo_heartbeat]
            = decode_screenshot demo_env (Some ''shot.png'') (VStr ''AAAA'') s2 \<and>
            slot s2 ''screenshot'' = (True, VStr ''AAAA''))"
    using c
    by (simp add: demo_facts del: deliver.simps)
  show ?thesis using 1 2 3 by blast
qed


text \<open>
  The pull call does not return the slot to idle: after an answered \<open>selected_object\<close>
  the signal is still set and the result slot still holds the payload.
\<close>

theorem pull_call_leaves_slot_fulfilled_counterexample:
  "(case selected_object demo_env demo_viewer [demo_reply ''selected_object'' (VStr ''bunny'')] of
      Returned v s2 \<Rightarrow> v = VStr ''bunny'' \<and> slot s2 ''selected_object'' = (True, VStr ''bunny'')
    | Raised e s2 \<Rightarrow> False)
   \<and> (True, VStr ''bunny'') \<noteq> (False, VNone)"
  by (simp add: selected_object_def emit_state_request_def msg_fields_def get_or_def Let_def
        demo_viewer_simps replace_own_requests request_events_def do_effect_def demo_reply_def
        on_event_def handle_state_request_def slot_def)

subsection \<open>Screenshots\<close>

lemma b64_text_demo: "b64_text (VStr demo_png) = Inr ''iVBORw0KGgo=''"
  by (simp add: demo_png_def)

lemma screenshot_demo_wait:
  "\<exists>s2. screenshot demo_env demo_viewer filename None None
            [demo_reply ''screenshot'' (VStr demo_png)]
          = decode_screenshot demo_env filename (VStr demo_png) s2"
  by (simp add: screenshot_def emit_state_request_def msg_fields_def get_or_def Let_def
        demo_viewer_simps replace_own_requests request_events_def do_effect_def demo_reply_def
        on_event_def handle_state_request_def demo_env_simps)
     (rule exI, rule refl)

lemma decode_screenshot_without_filename:
  "decode_screenshot demo_env None (VStr demo_png) s2 = Raised (UnboundLocalError ''ext'') s2"
  by (simp add: decode_screenshot_def b64_text_demo screenshot_image_def truthy_name_def
        demo_env_simps)
     (simp add: demo_png_def)


text \<open>
  C3. \<open>screenshot\<close> is to return the decoded pixel array for every \<open>filename\<close>, \<open>None\<close>
  included. With \<open>filename=None\<close> (the default) and a reply that arrives in time and
  decodes, the code reaches \<open>ext.lower()\<close> with \<open>ext\<close> never assigned and raises
  UnboundLocalError: no array is returned.
\<close>

theorem screenshot_without_filename_raises:
  "(case screenshot demo_env demo_viewer None None None
           [demo_reply ''screenshot'' (VStr demo_png)] of
      Raised e s2 \<Rightarrow> e = UnboundLocalError ''ext''
    | Returned r s2 \<Rightarrow> False)"
proof -
  obtain s2 where "screenshot demo_env demo_viewer None None None
            [demo_reply ''screenshot'' (VStr demo_png)]
          = decode_screenshot demo_env None (VStr demo_png) s2"
    using screenshot_demo_wait by blast
  then show ?thesis by (simp add: decode_screenshot_without_filename)
qed

text \<open>
  With a file name the array comes back, four channels deep for \<open>.png\<close> (also when the
  name has no extension) and three for \<open>.jpg\<close> and \<open>.jpeg\<close>; any other extension is a
  ValueError.
\<close>

lemma splitext_examples:
  "splitext_ext ''out/shot.png'' = ''.png''"
  "splitext_ext ''shot.JPG'' = ''.JPG''"
  "splitext_ext ''shot'' = []"
  "splitext_ext ''shot.gif'' = ''.gif''"
  by (simp_all add: splitext_ext_def rsplit_dot_def)

lemma lower_examples:
  "lower ''.png'' = ''.png''"
  "lower ''.JPG'' = ''.jpg''"
  "lower ''.gif'' = ''.gif''"
  by (simp_all add: lower_def lower_char_def)


lemma screenshot_to_png_and_jpg:
  "screenshot_image (Some ''out/shot.png'') img s
     = Returned (Some (Pixels ''RGBA'' img)) (do_effect (SaveImage ''out/shot.png'' ''RGBA'' img) s)"
  "screenshot_image (Some ''shot.JPG'') img s
     = Returned (Some (Pixels ''RGB'' img)) (do_effect (SaveImage ''shot.JPG'' ''RGB'' img) s)"
  "screenshot_image (Some ''shot'') img s
     = Returned (Some (Pixels ''RGBA'' img)) (do_effect (SaveImage ''shot.png'' ''RGBA'' img) s)"
  "screenshot_image (Some ''shot.gif'') img s
     = Raised (ValueError ''Unsupported file extension: .gif. Supported extensions are: .png, .jpg, .jpeg'') s"
  by (simp_all add: screenshot_image_def truthy_name_def splitext_examples lower_examples
        endswith_def startswith_def Let_def)

lemma screenshot_image_channels:
  assumes "screenshot_image (Some f) img s = Returned r s'"
  shows "r = Some (Pixels (if lower (if splitext_ext f = [] then ''.png'' else splitext_ext f) = ''.png''
                           then ''RGBA'' else ''RGB'') img)"
  using assms
  by (simp add: screenshot_image_def truthy_name_def Let_def split: if_splits)

subsection \<open>Console completion\<close>

lemma color_segment_None: "map (color_segment None) segs = segs"
  by (induction segs) (simp_all add: color_segment_def)


lemma strip_examples:
  "rstrip ''x.'' = ''x.''" "rstrip ''pri'' = ''pri''" "rstrip ''.pri'' = ''.pri''"
  "rstrip ''1+'' = ''1+''" "strip ''x'' = ''x''" "strip [] = []"
  by (simp_all add: rstrip_def strip_def is_space_def)

lemma demo_scopes:
  "resolve_console_scope demo_env demo_viewer =
     ((0, 0), demo_viewer\<lparr>store := (store demo_viewer)
        (0 := [(''__builtins__'', VDict [(''print'', VObj 0), (''property'', VObj 1), (''len'', VObj 2)])])\<rparr>)"
  "resolve_console_scope demo_env demo_bound =
     ((0, 0), demo_bound\<lparr>store := (store demo_bound)
        (0 := [(''x'', VInt 5),
               (''__builtins__'', VDict [(''print'', VObj 0), (''property'', VObj 1), (''len'', VObj 2)])])\<rparr>)"
  by (simp_all add: resolve_console_scope_def demo_bound_def demo_viewer_def add_control_def
        add_object_def do_effect_def init_viewer_def demo_env_simps Let_def)


lemma demo_bound_eval:
  "eval_source demo_env ''x'' 0 0
     (demo_bound\<lparr>store := (store demo_bound)
        (0 := [(''x'', VInt 5),
               (''__builtins__'', VDict [(''print'', VObj 0), (''property'', VObj 1), (''len'', VObj 2)])])\<rparr>)
   = Run (Inr (VInt 5))
      (demo_bound\<lparr>store := (store demo_bound)
        (0 := [(''x'', VInt 5),
               (''__builtins__'', VDict [(''print'', VObj 0), (''property'', VObj 1), (''len'', VObj 2)])])\<rparr>)
      [] []"
  by (simp add: eval_source_def demo_env_simps demo_eval_def)


text \<open>
  C7, as the code has it. On an enabled console, for a completion request with text:
  when the text holds a dot and the text before the last dot is not blank, that text is
  evaluated and the reply lists, sorted and without duplicates, the members of the
  result that start with the partial name after the dot (with an empty partial name:
  those not starting with a double underscore); otherwise (no dot, or nothing before the
  last dot) the trailing identifier is matched against the keys of the globals, the keys
  of the locals and the built-in names, sorted and without duplicates, so \<open>pri\<close> finds
  \<open>print\<close> when the built-ins have it. The handler sends the names joined by commas; an
  empty list is sent as the text \<open>(no completions)\<close>, in yellow.
\<close>

theorem completions_sorted_and_unique:
  assumes src: "source = rstrip (command_text E command)" "source \<noteq> []"
    and sc: "resolve_console_scope E s = ((g, l), s1)"
    and obj: "object_expr = (if CHR ''.'' \<in> set source then strip (fst (rsplit_dot source)) else [])"
    and part: "partial = snd (rsplit_dot source)"
  shows "(object_expr \<noteq> [] \<and> eval_source E object_expr g l s1 = Run (Inr target) s2 out err
           \<longrightarrow> (\<exists>names. fst (collect_console_completions E s command) = Inr names \<and>
                  sorted names \<and> distinct names \<and>
                  set names = {n \<in> set (dir E target).
                                 if partial \<noteq> [] then startswith n partial
                                 else \<not> startswith n ''__''}))
       \<and> (object_expr = [] \<and> trailing_identifier source = Some prefix
           \<longrightarrow> (\<exists>names. fst (collect_console_completions E s command) = Inr names \<and>
                  sorted names \<and> distinct names \<and>
                  set names = {n \<in> set (scope_names E s1 g l). startswith n prefix} \<and>
                  (prefix = ''pri'' \<and> ''print'' \<in> set (scope_names E s1 g l)
                     \<longrightarrow> ''print'' \<in> set names)))
       \<and> (object_expr = [] \<and> trailing_identifier source = None
           \<longrightarrow> fst (collect_console_completions E s command) = Inr [])
       \<and> (interactive_console_enabled s \<and> get_or d ''viewer_id'' VNone = VStr (viewer_id s) \<and>
          command = get_or d ''command'' (VStr []) \<and>
          collect_console_completions E s command = (Inr found, s')
           \<longrightarrow> handle_console_complete E s (VDict d) = Done (emit_completion_list E found s'))
       \<and> (found \<noteq> []
           \<longrightarrow> emit_completion_list E found s' =
                 s'\<lparr>print_buffer := print_buffer s' @ join '', '' found @ [CHR 0x0A],
                    effects := effects s' @
                      [EmitConsoleOutput
                         (split_text_to_segments E (join '', '' found @ [CHR 0x0A]))]\<rparr>)
       \<and> emit_completion_list E [] s' =
           s'\<lparr>print_buffer := print_buffer s' @ ''(no completions)'' @ [CHR 0x0A],
              effects := effects s' @
                [EmitConsoleOutput (map (color_segment (Some ''yellow''))
                   (split_text_to_segments E (''(no completions)'' @ [CHR 0x0A])))]\<rparr>"
proof (intro conjI impI)
  assume a: "object_expr \<noteq> [] \<and> eval_source E object_expr g l s1 = Run (Inr target) s2 out err"
  have "fst (collect_console_completions E s command) =
          Inr (sort (remdups (if partial \<noteq> []
                 then filter (\<lambda>name. startswith name partial) (dir E target)
                 else filter (\<lambda>name. \<not> startswith name ''__'') (dir E target))))"
    using a src sc obj part
    by (simp add: collect_console_completions_def Let_def split: if_splits)
  then show "\<exists>names. fst (collect_console_completions E s command) = Inr names \<and>
                  sorted names \<and> distinct names \<and>
                  set names = {n \<in> set (dir E target).
                                 if partial \<noteq> [] then startswith n partial
                                 else \<not> startswith n ''__''}"
    by auto
next
  assume a: "object_expr = [] \<and> trailing_identifier source = Some prefix"
  have r: "fst (collect_console_completions E s command) =
          Inr (sort (remdups (filter (\<lambda>name. startswith name prefix) (scope_names E s1 g l))))"
    using a src sc obj
    by (simp add: collect_console_completions_def Let_def split: if_splits)
  have p: "startswith ''print'' ''pri''" by (simp add: startswith_def)
  show "\<exists>names. fst (collect_console_completions E s command) = Inr names \<and>
                  sorted names \<and> distinct names \<and>
                  set names = {n \<in> set (scope_names E s1 g l). startswith n prefix} \<and>
                  (prefix = ''pri'' \<and> ''print'' \<in> set (scope_names E s1 g l)
                     \<longrightarrow> ''print'' \<in> set names)"
    using r p by auto
next
  assume a: "object_expr = [] \<and> trailing_identifier source = None"
  show "fst (collect_console_completions E s command) = Inr []"
    using a src sc obj
    by (simp add: collect_console_completions_def Let_def split: if_splits)
next
  assume "interactive_console_enabled s \<and> get_or d ''viewer_id'' VNone = VStr (viewer_id s) \<and>
          command = get_or d ''command'' (VStr []) \<and>
          collect_console_completions E s command = (Inr found, s')"
  then show "handle_console_complete E s (VDict d) = Done (emit_completion_list E found s')"
    by (auto simp: handle_console_complete_def)
next
  assume "found \<noteq> []"
  then show "emit_completion_list E found s' =
                 s'\<lparr>print_buffer := print_buffer s' @ join '', '' found @ [CHR 0x0A],
                    effects := effects s' @
                      [EmitConsoleOutput
                         (split_text_to_segments E (join '', '' found @ [CHR 0x0A]))]\<rparr>"
    by (simp add: emit_completion_list_def emit_console_text_def do_effect_def
          color_segment_None)
next
  show "emit_completion_list E [] s' =
           s'\<lparr>print_buffer := print_buffer s' @ ''(no completions)'' @ [CHR 0x0A],
              effects := effects s' @
                [EmitConsoleOutput (map (color_segment (Some ''yellow''))
                   (split_text_to_segments E (''(no completions)'' @ [CHR 0x0A])))]\<rparr>"
    by (simp add: emit_completion_list_def emit_console_text_def do_effect_def)
qed



theorem completions_sorted_and_unique_witness:
  "(\<exists>names. fst (collect_console_completions demo_env demo_bound (VStr ''x.'')) = Inr names \<and>
       sorted names \<and> distinct names \<and> ''real'' \<in> set names \<and> ''__abs__'' \<notin> set names)
   \<and> (\<exists>names. fst (collect_console_completions demo_env demo_viewer (VStr ''pri'')) = Inr names \<and>
       sorted names \<and> distinct names \<and> ''print'' \<in> set names)
   \<and> fst (collect_console_completions demo_env demo_viewer (VStr ''1+'')) = Inr []
   \<and> (case handle_console_complete demo_env demo_viewer
              (VDict [(''viewer_id'', VStr ''viewer_1''), (''command'', VStr ''1+'')]) of
         Returned u s' \<Rightarrow>
           print_buffer s' = ''(no completions)'' @ [CHR 0x0A] \<and>
           effects s' = effects demo_viewer @
              [EmitConsoleOutput [(''(no completions)'' @ [CHR 0x0A], Some ''yellow'')]]
       | Raised e s' \<Rightarrow> False)"
proof -
  have "\<exists>names. fst (collect_console_completions demo_env demo_bound (VStr ''x.'')) = Inr names \<and>
       sorted names \<and> distinct names \<and>
       set names = {n \<in> set (dir demo_env (VInt 5)).
                       if [] \<noteq> ([]::string) then startswith n [] else \<not> startswith n ''__''}"
    using completions_sorted_and_unique
     [where E = demo_env and s = demo_bound and command = "VStr ''x.''" and source = "''x.''"
        and g = 0 and l = 0 and object_expr = "''x''" and partial = "[]" and target = "VInt 5"
        and out = "[]" and err = "[]"
        and ?s2.0 = "demo_bound\<lparr>store := (store demo_bound)
        (0 := [(''x'', VInt 5),
               (''__builtins__'', VDict [(''print'', VObj 0), (''property'', VObj 1), (''len'', VObj 2)])])\<rparr>",
      OF _ _ demo_scopes(2), THEN conjunct1] demo_bound_eval
    by (simp add: command_text_def strip_examples rsplit_dot_def)
  then obtain names where n: "fst (collect_console_completions demo_env demo_bound (VStr ''x.'')) = Inr names"
      "sorted names" "distinct names"
      "set names = {n \<in> set (dir demo_env (VInt 5)). \<not> startswith n ''__''}"
    by auto
  have "''real'' \<in> set names \<and> ''__abs__'' \<notin> set names"
    unfolding n(4) by (simp add: demo_env_simps startswith_def)
  with n have 1: "\<exists>names. fst (collect_console_completions demo_env demo_bound (VStr ''x.'')) = Inr names \<and>
       sorted names \<and> distinct names \<and> ''real'' \<in> set names \<and> ''__abs__'' \<notin> set names"
    by blast
  note b = completions_sorted_and_unique
     [where E = demo_env and s = demo_viewer and command = "VStr ''pri''" and source = "''pri''"
        and g = 0 and l = 0 and object_expr = "[]" and prefix = "''pri''",
      OF _ _ demo_scopes(1), THEN conjunct2, THEN conjunct1]
  have 2: "\<exists>names. fst (collect_console_completions demo_env demo_viewer (VStr ''pri'')) = Inr names \<and>
       sorted names \<and> distinct names \<and> ''print'' \<in> set names"
    using b
    by (simp add: command_text_def strip_examples is_ident_start_def is_ident_char_def
          scope_names_def get_or_def demo_env_simps)
       blast
  note c = completions_sorted_and_unique
     [where E = demo_env and s = demo_viewer and command = "VStr ''1+''" and source = "''1+''"
        and g = 0 and l = 0 and object_expr = "[]",
      OF _ _ demo_scopes(1), THEN conjunct2, THEN conjunct2, THEN conjunct1]
  have 3: "fst (collect_console_completions demo_env demo_viewer (VStr ''1+'')) = Inr []"
    using c
    by (simp add: command_text_def strip_examples is_ident_start_def is_ident_char_def)
  have 4: "(case handle_console_complete demo_env demo_viewer
              (VDict [(''viewer_id'', VStr ''viewer_1''), (''command'', VStr ''1+'')]) of
         Returned u s' \<Rightarrow>
           print_buffer s' = ''(no completions)'' @ [CHR 0x0A] \<and>
           effects s' = effects demo_viewer @
              [EmitConsoleOutput [(''(no completions)'' @ [CHR 0x0A], Some ''yellow'')]]
       | Raised e s' \<Rightarrow> False)"
    by (simp add: handle_console_complete_def get_or_def demo_viewer_simps
          collect_console_completions_def command_text_def strip_examples demo_scopes
          is_ident_start_def is_ident_char_def emit_completion_list_def emit_console_text_def
          do_effect_def demo_env_simps color_segment_def)
  show ?thesis using 1 2 3 4 by blast
qed

text \<open>
  A dot alone does not make the code evaluate anything: for \<open>.pri\<close> nothing stands
  before the dot, and the code completes \<open>pri\<close> from the scope, where the specification has it
  evaluate the (empty) text before the dot.
\<close>

theorem dot_without_object_counterexample:
  "CHR ''.'' \<in> set ''.pri''
   \<and> fst (collect_console_completions demo_env demo_viewer (VStr ''.pri'')) = Inr [''print'']
   \<and> fst (completions_as_specified demo_env demo_viewer (VStr ''.pri''))
       = Inl ''SyntaxError: invalid syntax''"
proof -
  have 1: "fst (collect_console_completions demo_env demo_viewer (VStr ''.pri'')) = Inr [''print'']"
    by (simp add: collect_console_completions_def command_text_def strip_examples demo_scopes
          rsplit_dot_def Let_def is_ident_start_def is_ident_char_def scope_names_def get_or_def
          demo_env_simps startswith_def)
  have 2: "fst (completions_as_specified demo_env demo_viewer (VStr ''.pri''))
       = Inl ''SyntaxError: invalid syntax''"
    by (simp add: completions_as_specified_def command_text_def strip_examples demo_scopes
          rsplit_dot_def Let_def eval_source_def demo_env_simps)
  show ?thesis using 1 2 by simp
qed

subsection \<open>Console execution\<close>














end
